theory Spec2Isabelle
  imports Complex_Main "HOL-Library.AList"
begin

section \<open>Client bootstrap script (js/main.js): a shallow embedding\<close>

text \<open>
  JavaScript strings are modelled as \<^typ>\<open>string\<close>: a list of code units below 256, which
  covers every character the script's own literals and the properties below mention.
\<close>

subsection \<open>CONFIG\<close>

definition CONFIG_templatePath :: string where "CONFIG_templatePath = ''templates/''"
definition CONFIG_headerFile :: string where "CONFIG_headerFile = ''header.html''"
definition CONFIG_footerFile :: string where "CONFIG_footerFile = ''footer.html''"
definition CONFIG_storageKey :: string where "CONFIG_storageKey = ''user_logged_in''"
definition CONFIG_userDataKey :: string where "CONFIG_userDataKey = ''user_data''"

subsection \<open>Regular expressions and \<open>isValidEmail\<close>\<close>

text \<open>
  The fragment of the regular-expression syntax that \<open>emailRegex\<close> is written in: a class
  item is a literal character or the escape \<open>\s\<close>; a pattern is a single item, a negated
  class \<open>[^...]\<close>, a sequence, or a repetition \<open>+\<close> (and \<open>*\<close>, which the derivative of
  \<open>+\<close> needs). \<open>Fail\<close> matches nothing and \<open>Eps\<close> the empty string.
\<close>

datatype item = Lit char | WhiteSpace

datatype regex =
    Fail
  | Eps
  | One item
  | NoneOf "item list"
  | Seq regex regex
  | Star regex
  | Plus regex

text \<open>The code units below 256 that \<open>\s\<close> matches: TAB, LF, VT, FF, CR, SPACE and NBSP.\<close>

definition is_space :: "char \<Rightarrow> bool" where
  "is_space c = (of_char c \<in> {9, 10, 11, 12, 13, 32, 160 :: nat})"

fun item_matches :: "item \<Rightarrow> char \<Rightarrow> bool" where
  "item_matches (Lit d) c = (c = d)"
| "item_matches WhiteSpace c = is_space c"

fun nullable :: "regex \<Rightarrow> bool" where
  "nullable Fail = False"
| "nullable Eps = True"
| "nullable (One i) = False"
| "nullable (NoneOf is) = False"
| "nullable (Seq r s) = (nullable r \<and> nullable s)"
| "nullable (Star r) = True"
| "nullable (Plus r) = nullable r"

text \<open>Smart sequencing keeps the residual patterns small.\<close>

fun seq :: "regex \<Rightarrow> regex \<Rightarrow> regex" where
  "seq Fail s = Fail"
| "seq Eps s = s"
| "seq r s = Seq r s"

text \<open>
  \<open>residuals c r\<close> lists the patterns that may remain to be matched after \<open>r\<close> has
  consumed the character \<open>c\<close> (a list, since the fragment has no alternation of its own).
\<close>

fun residuals :: "char \<Rightarrow> regex \<Rightarrow> regex list" where
  "residuals c Fail = []"
| "residuals c Eps = []"
| "residuals c (One i) = (if item_matches i c then [Eps] else [])"
| "residuals c (NoneOf is) = (if list_ex (\<lambda>i. item_matches i c) is then [] else [Eps])"
| "residuals c (Seq r s) =
     map (\<lambda>r'. seq r' s) (residuals c r) @ (if nullable r then residuals c s else [])"
| "residuals c (Star r) = map (\<lambda>r'. seq r' (Star r)) (residuals c r)"
| "residuals c (Plus r) = map (\<lambda>r'. seq r' (Star r)) (residuals c r)"

fun run :: "regex list \<Rightarrow> string \<Rightarrow> bool" where
  "run rs [] = list_ex nullable rs"
| "run rs (c # cs) = run (remdups (concat (map (residuals c) rs))) cs"

text \<open>
  \<open>full_match r s\<close>: the whole of \<open>s\<close> matches \<open>r\<close>. This is what \<open>/^r$/.test(s)\<close>
  computes for a pattern without flags.
\<close>

definition full_match :: "regex \<Rightarrow> string \<Rightarrow> bool" where
  "full_match r s = run [r] s"

text \<open>\<open>const emailRegex = /^[^\s@]+@[^\s@]+\.[^\s@]+$/;\<close>\<close>

definition emailRegex :: regex where
  "emailRegex =
     Seq (Plus (NoneOf [WhiteSpace, Lit CHR ''@'']))
    (Seq (One (Lit CHR ''@''))
    (Seq (Plus (NoneOf [WhiteSpace, Lit CHR ''@'']))
    (Seq (One (Lit CHR ''.''))
         (Plus (NoneOf [WhiteSpace, Lit CHR ''@''])))))"

definition isValidEmail :: "string \<Rightarrow> bool" where
  "isValidEmail email = full_match emailRegex email"

text \<open>
  What a pattern means: the set of strings it matches. The matcher above is checked
  against this meaning below. A character is \<open>plain\<close> when \<open>[^\s@]\<close> matches it.
\<close>

definition conc :: "string set \<Rightarrow> string set \<Rightarrow> string set" where
  "conc A B = {u @ v | u v. u \<in> A \<and> v \<in> B}"

inductive_set star :: "string set \<Rightarrow> string set" for L :: "string set" where
  star_empty: "[] \<in> star L"
| star_more: "u \<in> L \<Longrightarrow> v \<in> star L \<Longrightarrow> u @ v \<in> star L"

fun lang :: "regex \<Rightarrow> string set" where
  "lang Fail = {}"
| "lang Eps = {[]}"
| "lang (One i) = {[c] | c. item_matches i c}"
| "lang (NoneOf is) = {[c] | c. \<not> list_ex (\<lambda>i. item_matches i c) is}"
| "lang (Seq r s) = conc (lang r) (lang s)"
| "lang (Star r) = star (lang r)"
| "lang (Plus r) = conc (lang r) (star (lang r))"

definition tails :: "char \<Rightarrow> string set \<Rightarrow> string set" where
  "tails c L = {w. c # w \<in> L}"

definition plain :: "char \<Rightarrow> bool" where
  "plain c = (\<not> is_space c \<and> c \<noteq> CHR ''@'')"

subsection \<open>JavaScript values\<close>

text \<open>
  The values the script handles: the JSON values, BigInt (a value that \<open>JSON.stringify\<close>
  refuses) and \<open>undefined\<close>. A number inside a value is a finite double, given by the
  rational it denotes. An object is its list of own properties in enumeration order, with
  distinct keys.
\<close>

datatype json =
    JNull
  | JBool bool
  | JNum rat
  | JBigInt int
  | JStr string
  | JArr "json list"
  | JObj "(string \<times> json) list"

datatype jsval = Undefined | Val json

datatype js_error = SyntaxError | TypeError | AbortError | QuotaExceededError

text \<open>
  How a call ends: it returns a value, it throws, or (an awaited promise that never
  settles) it stays suspended for ever. Every operation returns its completion together
  with the world it leaves behind, so that the writes made before a throw stay visible.
\<close>

datatype 'a completion = Normal 'a | Throw js_error | Pending

text \<open>\<open>ToBoolean\<close>.\<close>

fun truthy :: "jsval \<Rightarrow> bool" where
  "truthy Undefined = False"
| "truthy (Val JNull) = False"
| "truthy (Val (JBool b)) = b"
| "truthy (Val (JNum r)) = (r \<noteq> 0)"
| "truthy (Val (JBigInt n)) = (n \<noteq> 0)"
| "truthy (Val (JStr s)) = (s \<noteq> [])"
| "truthy (Val (JArr xs)) = True"
| "truthy (Val (JObj fs)) = True"

text \<open>\<open>a || b\<close>.\<close>

definition or_else :: "jsval \<Rightarrow> jsval \<Rightarrow> jsval" where
  "or_else a b = (if truthy a then a else b)"

text \<open>
  Decimal numerals: \<open>show_digits\<close> prints a non-negative integer, \<open>show_int\<close> adds
  the sign.
\<close>

function show_digits :: "int \<Rightarrow> string" where
  "show_digits n =
     (if n < 10 then [char_of (48 + n)]
      else show_digits (n div 10) @ [char_of (48 + n mod 10)])"
  by pat_completeness auto
termination
  by (relation "measure nat") auto

declare show_digits.simps [simp del]

definition show_int :: "int \<Rightarrow> string" where
  "show_int i = (if i < 0 then CHR ''-'' # show_digits (- i) else show_digits i)"

definition show_nat :: "nat \<Rightarrow> string" where
  "show_nat n = show_digits (int n)"


subsection \<open>Numbers\<close>

text \<open>
  A JavaScript number is a double: a finite one (the rational it denotes), an infinity or
  \<open>NaN\<close>. Every arithmetic result is rounded to the nearest double, ties to the even
  significand of 53 bits, with gradual underflow below \<open>2^-1022\<close> and overflow to an
  infinity from \<open>2^1024\<close> on. The sign of zero is not tracked.
\<close>

datatype number = Finite rat | PosInf | NegInf | NaN

function bit_length :: "int \<Rightarrow> int" where
  "bit_length n = (if n \<le> 0 then 0 else 1 + bit_length (n div 2))"
  by pat_completeness auto
termination
  by (relation "measure nat") auto

declare bit_length.simps [simp del]

definition pow2 :: "int \<Rightarrow> rat" where
  "pow2 e = (if 0 \<le> e then 2 ^ nat e else 1 / 2 ^ nat (- e))"

definition pow10 :: "int \<Rightarrow> rat" where
  "pow10 e = (if 0 \<le> e then 10 ^ nat e else 1 / 10 ^ nat (- e))"

text \<open>For positive \<open>x\<close>, the exponent \<open>e\<close> with \<open>2^e \<le> x < 2^(e+1)\<close>.\<close>

definition floor_log2 :: "rat \<Rightarrow> int" where
  "floor_log2 x =
     (let (p, q) = quotient_of x; d = bit_length p - bit_length q
      in if pow2 d \<le> x then d else d - 1)"

text \<open>The nearest integer, a tie going to the even one.\<close>

definition round_even :: "rat \<Rightarrow> int" where
  "round_even x =
     (let f = \<lfloor>x\<rfloor>; d = x - of_int f
      in if d < 1 / 2 then f else if 1 / 2 < d then f + 1 else if even f then f else f + 1)"

definition round_to_double :: "rat \<Rightarrow> number" where
  "round_to_double x =
     (if x = 0 then Finite 0
      else
        let a = \<bar>x\<bar>;
            e = max (floor_log2 a) (- 1022);
            q = pow2 (e - 52);
            n = round_even (a / q)
        in if 1024 \<le> e \<or> (e = 1023 \<and> n = 9007199254740992)
           then (if 0 < x then PosInf else NegInf)
           else Finite (if 0 < x then of_int n * q else - (of_int n * q)))"

text \<open>\<open>x * y\<close>, \<open>x + y\<close> and \<open>x > y\<close> on numbers.\<close>

fun num_mul :: "number \<Rightarrow> number \<Rightarrow> number" where
  "num_mul NaN y = NaN"
| "num_mul x NaN = NaN"
| "num_mul (Finite a) (Finite b) = round_to_double (a * b)"
| "num_mul (Finite a) PosInf = (if a = 0 then NaN else if 0 < a then PosInf else NegInf)"
| "num_mul (Finite a) NegInf = (if a = 0 then NaN else if 0 < a then NegInf else PosInf)"
| "num_mul PosInf (Finite b) = (if b = 0 then NaN else if 0 < b then PosInf else NegInf)"
| "num_mul NegInf (Finite b) = (if b = 0 then NaN else if 0 < b then NegInf else PosInf)"
| "num_mul PosInf PosInf = PosInf"
| "num_mul PosInf NegInf = NegInf"
| "num_mul NegInf PosInf = NegInf"
| "num_mul NegInf NegInf = PosInf"

fun num_add :: "number \<Rightarrow> number \<Rightarrow> number" where
  "num_add NaN y = NaN"
| "num_add x NaN = NaN"
| "num_add (Finite a) (Finite b) = round_to_double (a + b)"
| "num_add PosInf NegInf = NaN"
| "num_add NegInf PosInf = NaN"
| "num_add PosInf y = PosInf"
| "num_add NegInf y = NegInf"
| "num_add x PosInf = PosInf"
| "num_add x NegInf = NegInf"

fun num_greater :: "number \<Rightarrow> number \<Rightarrow> bool" where
  "num_greater NaN y = False"
| "num_greater x NaN = False"
| "num_greater (Finite a) (Finite b) = (b < a)"
| "num_greater PosInf PosInf = False"
| "num_greater PosInf y = True"
| "num_greater x PosInf = False"
| "num_greater NegInf y = False"
| "num_greater x NegInf = True"

text \<open>
  \<open>Number.prototype.toString\<close> for a finite double: the shortest decimal digits that
  round back to it (of two equally short candidates the nearer one), laid out with the
  point or the exponent where the language puts them.

  For positive \<open>x\<close>, \<open>decimal_exponent x\<close> is the \<open>n\<close> with \<open>10^(n-1) \<le> x < 10^n\<close>,
  and \<open>digits_at x n k\<close> is the integer \<open>s\<close> nearest to \<open>x / 10^(n-k)\<close> for which
  \<open>s * 10^(n-k)\<close> rounds to \<open>x\<close>, if there is one.
\<close>

definition decimal_exponent :: "rat \<Rightarrow> int" where
  "decimal_exponent x =
     (if 1 \<le> x then int (length (show_digits \<lfloor>x\<rfloor>))
      else (case find (\<lambda>j. 1 \<le> x * 10 ^ j) [1..<400] of
              Some j \<Rightarrow> 1 - int j
            | None \<Rightarrow> 0))"

definition digits_at :: "rat \<Rightarrow> int \<Rightarrow> nat \<Rightarrow> int option" where
  "digits_at x n k =
     (let u = x / pow10 (n - int k);
          s0 = round_even u;
          s1 = (if s0 = \<lfloor>u\<rfloor> then s0 + 1 else s0 - 1)
      in if round_to_double (of_int s0 * pow10 (n - int k)) = Finite x then Some s0
         else if round_to_double (of_int s1 * pow10 (n - int k)) = Finite x then Some s1
         else None)"

fun first_digits :: "rat \<Rightarrow> int \<Rightarrow> nat list \<Rightarrow> int option" where
  "first_digits x n [] = None"
| "first_digits x n (k # ks) =
     (case digits_at x n k of Some s \<Rightarrow> Some s | None \<Rightarrow> first_digits x n ks)"

definition shortest_digits :: "rat \<Rightarrow> string \<times> int" where
  "shortest_digits x =
     (let n = decimal_exponent x
      in case first_digits x n [1..<18] of
           None \<Rightarrow> ([], n)
         | Some s \<Rightarrow> if s = 10 then (''1'', n + 1) else (show_digits s, n))"

definition format_digits :: "string \<Rightarrow> int \<Rightarrow> string" where
  "format_digits ds n =
     (let k = int (length ds)
      in if k \<le> n \<and> n \<le> 21 then ds @ replicate (nat (n - k)) CHR ''0''
         else if 0 < n \<and> n \<le> 21 then take (nat n) ds @ ''.'' @ drop (nat n) ds
         else if - 6 < n \<and> n \<le> 0 then ''0.'' @ replicate (nat (- n)) CHR ''0'' @ ds
         else
           (if k = 1 then ds else take 1 ds @ ''.'' @ drop 1 ds) @ ''e'' @
           (if n - 1 < 0 then ''-'' else ''+'') @ show_digits \<bar>n - 1\<bar>)"

definition Number_toString :: "rat \<Rightarrow> string" where
  "Number_toString x =
     (if x = 0 then ''0''
      else if x < 0 then ''-'' @ (case shortest_digits (- x) of (ds, n) \<Rightarrow> format_digits ds n)
      else (case shortest_digits x of (ds, n) \<Rightarrow> format_digits ds n))"

subsection \<open>Conversions and property access\<close>

fun join :: "string \<Rightarrow> string list \<Rightarrow> string" where
  "join sep [] = []"
| "join sep [x] = x"
| "join sep (x # y # ys) = x @ sep @ join sep (y # ys)"

text \<open>
  \<open>ToString\<close>: an array prints its elements separated by commas, with \<open>null\<close>
  printed as nothing; an object prints as \<open>[object Object]\<close>.
\<close>

fun ToString :: "json \<Rightarrow> string" where
  "ToString JNull = ''null''"
| "ToString (JBool b) = (if b then ''true'' else ''false'')"
| "ToString (JNum r) = Number_toString r"
| "ToString (JBigInt n) = show_int n"
| "ToString (JStr s) = s"
| "ToString (JArr xs) = join '','' (map (\<lambda>x. if x = JNull then [] else ToString x) xs)"
| "ToString (JObj fs) = ''[object Object]''"

text \<open>
  Reading a property whose name is neither a built-in member of strings and arrays nor on
  \<open>Object.prototype\<close> (\<open>email\<close>, \<open>username\<close>, \<open>expiry\<close>, \<open>value\<close>):
  \<open>v?.k\<close> is \<open>undefined\<close> on \<open>null\<close> and \<open>undefined\<close>, while \<open>v.k\<close> throws there.
\<close>

fun opt_prop :: "jsval \<Rightarrow> string \<Rightarrow> jsval" where
  "opt_prop (Val (JObj fs)) k = (case map_of fs k of None \<Rightarrow> Undefined | Some v \<Rightarrow> Val v)"
| "opt_prop v k = Undefined"

fun get_prop :: "jsval \<Rightarrow> string \<Rightarrow> jsval completion" where
  "get_prop Undefined k = Throw TypeError"
| "get_prop (Val JNull) k = Throw TypeError"
| "get_prop v k = Normal (opt_prop v k)"

text \<open>
  Object spread \<open>{...v}\<close>: the own enumerable properties of an object; the indexed
  elements of an array or string; nothing for any other value.
\<close>

fun spread :: "json \<Rightarrow> (string \<times> json) list" where
  "spread (JObj fs) = fs"
| "spread (JArr xs) = zip (map show_nat [0..<length xs]) xs"
| "spread (JStr s) = zip (map show_nat [0..<length s]) (map (\<lambda>c. JStr [c]) s)"
| "spread v = []"

subsection \<open>\<open>escapeHTML\<close>\<close>

text \<open>
  \<open>escapeHTML\<close> creates a detached \<open>div\<close>, assigns \<open>textContent\<close> and reads
  \<open>innerHTML\<close> back. The assignment converts its argument to a string (\<open>null\<close> and
  \<open>undefined\<close> to the empty one); the element then has no child (empty text) or a single
  text node, and the HTML fragment serialisation of a text node replaces \<open>&\<close>, the
  no-break space, \<open><\<close> and \<open>>\<close> by entities and copies every other character.
\<close>

datatype node = TextNode string

fun DOMString :: "jsval \<Rightarrow> string" where
  "DOMString Undefined = []"
| "DOMString (Val JNull) = []"
| "DOMString (Val v) = ToString v"

definition set_textContent :: "jsval \<Rightarrow> node list" where
  "set_textContent text = (let s = DOMString text in if s = [] then [] else [TextNode s])"

definition escape_char :: "char \<Rightarrow> string" where
  "escape_char c =
     (if c = CHR ''&'' then ''&amp;''
      else if c = CHR 0xA0 then ''&nbsp;''
      else if c = CHR ''<'' then ''&lt;''
      else if c = CHR ''>'' then ''&gt;''
      else [c])"

fun serialize_node :: "node \<Rightarrow> string" where
  "serialize_node (TextNode s) = concat (map escape_char s)"

definition get_innerHTML :: "node list \<Rightarrow> string" where
  "get_innerHTML children = concat (map serialize_node children)"

definition escapeHTML :: "jsval \<Rightarrow> string" where
  "escapeHTML text = (let el = set_textContent text in get_innerHTML el)"

subsection \<open>The page and the platform\<close>

text \<open>
  The part of the browser the script reads and writes. \<open>localStorage\<close> maps keys to
  strings. Each of the three containers the script rewrites is tracked by its
  \<open>innerHTML\<close>, \<open>None\<close> when \<open>document.querySelector\<close> finds no such element; the
  containers are taken to be distinct elements, none inside another. The remaining fields
  record what the script sends outwards: listeners attached, events dispatched, console
  output, the network traffic of \<open>fetch\<close>, and the location assigned.
\<close>

datatype event = UserLogin json | UserLogout | AppReady

datatype log_entry =
    HeaderFailed nat
  | FooterFailed nat
  | TemplateError js_error

datatype net_event = Requested string | Settled string

record world =
  localStorage :: "string \<rightharpoonup> string"
  header_container :: "string option"
  footer_container :: "string option"
  auth_container :: "string option"
  listeners :: "(string \<times> string) list"
  dispatched :: "event list"
  console :: "log_entry list"
  network :: "net_event list"
  location_href :: string

text \<open>
  The platform functions the script calls but does not define are parameters:
  \<open>JSON.parse\<close> (\<open>None\<close> is a \<open>SyntaxError\<close>); \<open>JSON.stringify\<close> (\<open>None\<close> is
  the \<open>TypeError\<close> it throws, as on a BigInt); \<open>Date.prototype.toISOString\<close> on epoch
  milliseconds; the conversion of a string to a number; whether the store refuses a write
  of a key and a value to its present content (\<open>localStorage.setItem\<close> then throws a
  \<open>QuotaExceededError\<close>); and whether \<open>document.querySelector\<close> finds an element for
  one of the header's button selectors in the current page.
\<close>

record platform =
  JSON_parse :: "string \<Rightarrow> json option"
  JSON_stringify :: "json \<Rightarrow> string option"
  toISOString :: "int \<Rightarrow> string"
  StringToNumber :: "string \<Rightarrow> number"
  quota_exceeded :: "(string \<rightharpoonup> string) \<Rightarrow> string \<Rightarrow> string \<Rightarrow> bool"
  querySelector :: "world \<Rightarrow> string \<Rightarrow> bool"

text \<open>Sequencing of statements, and \<open>try { ... } catch (error) { ... }\<close>.\<close>

definition and_then ::
  "'a completion \<times> world \<Rightarrow> ('a \<Rightarrow> world \<Rightarrow> 'b completion \<times> world) \<Rightarrow> 'b completion \<times> world" where
  "and_then m f =
     (case m of
        (Normal x, w) \<Rightarrow> f x w
      | (Throw e, w) \<Rightarrow> (Throw e, w)
      | (Pending, w) \<Rightarrow> (Pending, w))"

definition try_catch ::
  "'a completion \<times> world \<Rightarrow> (js_error \<Rightarrow> world \<Rightarrow> 'a completion \<times> world) \<Rightarrow> 'a completion \<times> world" where
  "try_catch m h = (case m of (Throw e, w) \<Rightarrow> h e w | (c, w) \<Rightarrow> (c, w))"

text \<open>\<open>localStorage.setItem\<close>, \<open>localStorage.removeItem\<close> and \<open>JSON.stringify\<close> as calls.\<close>

definition setItem :: "platform \<Rightarrow> string \<Rightarrow> string \<Rightarrow> world \<Rightarrow> unit completion \<times> world" where
  "setItem P k v w =
     (if quota_exceeded P (localStorage w) k v then (Throw QuotaExceededError, w)
      else (Normal (), w\<lparr>localStorage := (localStorage w)(k \<mapsto> v)\<rparr>))"

definition removeItem :: "string \<Rightarrow> world \<Rightarrow> world" where
  "removeItem k w = w\<lparr>localStorage := (localStorage w)(k := None)\<rparr>"

definition stringify :: "platform \<Rightarrow> json \<Rightarrow> world \<Rightarrow> string completion \<times> world" where
  "stringify P v w =
     (case JSON_stringify P v of
        None \<Rightarrow> (Throw TypeError, w)
      | Some s \<Rightarrow> (Normal s, w))"

subsection \<open>Login state\<close>

definition isLoggedIn :: "world \<Rightarrow> bool" where
  "isLoggedIn w = (localStorage w CONFIG_storageKey = Some ''true'')"

text \<open>\<open>return data ? JSON.parse(data) : null;\<close> The empty string is falsy.\<close>

definition getUserData :: "platform \<Rightarrow> world \<Rightarrow> json completion" where
  "getUserData P w =
     (case localStorage w CONFIG_userDataKey of
        None \<Rightarrow> Normal JNull
      | Some data \<Rightarrow>
          if data \<noteq> [] then
            (case JSON_parse P data of None \<Rightarrow> Throw SyntaxError | Some v \<Rightarrow> Normal v)
          else Normal JNull)"

definition welcome_html :: "string \<Rightarrow> string" where
  \<open>welcome_html name =
     [CHR 0x0A] @ ''      <div class="user-welcome">'' @
     [CHR 0x0A] @ ''        <p>Welcome, <strong>'' @ name @ ''</strong></p>'' @
     [CHR 0x0A] @ ''        <button class="logout-btn" onclick="logout()">Logout</button>'' @
     [CHR 0x0A] @ ''      </div>'' @
     [CHR 0x0A] @ ''    ''\<close>

definition login_html :: string where
  \<open>login_html =
     [CHR 0x0A] @ ''      <a href="login.html" class="login-btn">Login</a>'' @
     [CHR 0x0A] @ ''    ''\<close>

definition updateAuthUI :: "platform \<Rightarrow> world \<Rightarrow> unit completion \<times> world" where
  "updateAuthUI P w =
     (case auth_container w of
        None \<Rightarrow> (Normal (), w)
      | Some old \<Rightarrow>
          if isLoggedIn w then
            (case getUserData P w of
               Normal userData \<Rightarrow>
                 (let username =
                        or_else (or_else (opt_prop (Val userData) ''email'')
                                         (opt_prop (Val userData) ''username''))
                                (Val (JStr ''User''))
                  in (Normal (), w\<lparr>auth_container := Some (welcome_html (escapeHTML username))\<rparr>))
             | Throw e \<Rightarrow> (Throw e, w)
             | Pending \<Rightarrow> (Pending, w))
          else (Normal (), w\<lparr>auth_container := Some login_html\<rparr>))"

definition dispatchEvent :: "event \<Rightarrow> world \<Rightarrow> world" where
  "dispatchEvent ev w = w\<lparr>dispatched := dispatched w @ [ev]\<rparr>"

text \<open>The object \<open>{ ...userData, loginTime: t }\<close> that \<open>login\<close> stores.\<close>

definition login_record :: "json \<Rightarrow> string \<Rightarrow> json" where
  "login_record userData t = JObj (AList.update ''loginTime'' (JStr t) (spread userData))"

text \<open>
  \<open>login(userData = {})\<close>, called when the clock reads \<open>now\<close>: the default applies to
  \<open>undefined\<close> only. The flag is written first; the record is serialised and written
  next, and either step can throw with the flag already in the store.
\<close>

definition default_user :: "jsval \<Rightarrow> json" where
  "default_user arg = (case arg of Undefined \<Rightarrow> JObj [] | Val v \<Rightarrow> v)"

definition login :: "platform \<Rightarrow> int \<Rightarrow> jsval \<Rightarrow> world \<Rightarrow> unit completion \<times> world" where
  "login P now arg w =
     (let userData = default_user arg
      in and_then (setItem P CONFIG_storageKey ''true'' w) (\<lambda>u w.
         and_then (stringify P (login_record userData (toISOString P now)) w) (\<lambda>record w.
         and_then (setItem P CONFIG_userDataKey record w) (\<lambda>u w.
           updateAuthUI P (dispatchEvent (UserLogin userData) w)))))"

definition logout :: "platform \<Rightarrow> world \<Rightarrow> unit completion \<times> world" where
  "logout P w =
     (let w1 = removeItem CONFIG_storageKey w;
          w2 = removeItem CONFIG_userDataKey w1;
          w3 = dispatchEvent UserLogout w2
      in case updateAuthUI P w3 of
           (Normal u, w4) \<Rightarrow> (Normal (), w4\<lparr>location_href := ''/''\<rparr>)
         | (c, w4) \<Rightarrow> (c, w4))"

subsection \<open>Values stored with an expiry\<close>

text \<open>
  The numeric value that the comparison \<open>now > data.expiry\<close> gives its right operand:
  \<open>undefined\<close> is \<open>NaN\<close>, \<open>null\<close> is 0, a BigInt is compared by its value, an array or
  object is converted through its string.
\<close>

fun ToNumber :: "platform \<Rightarrow> jsval \<Rightarrow> number" where
  "ToNumber P Undefined = NaN"
| "ToNumber P (Val JNull) = Finite 0"
| "ToNumber P (Val (JBool b)) = Finite (if b then 1 else 0)"
| "ToNumber P (Val (JNum r)) = Finite r"
| "ToNumber P (Val (JBigInt n)) = Finite (of_int n)"
| "ToNumber P (Val (JStr s)) = StringToNumber P s"
| "ToNumber P (Val v) = StringToNumber P (ToString v)"

text \<open>\<open>n > v\<close> for a clock reading \<open>n\<close>: false when \<open>v\<close> converts to \<open>NaN\<close>.\<close>

definition greater_than :: "platform \<Rightarrow> int \<Rightarrow> jsval \<Rightarrow> bool" where
  "greater_than P n v = num_greater (Finite (of_int n)) (ToNumber P v)"

text \<open>
  \<open>new Date().getTime() + expiryMinutes * 60 * 1000\<close>, when the clock reads \<open>now\<close>: two
  multiplications and an addition, each rounded.
\<close>

definition expiry_time :: "int \<Rightarrow> number \<Rightarrow> number" where
  "expiry_time now expiryMinutes =
     num_add (Finite (of_int now)) (num_mul (num_mul expiryMinutes (Finite 60)) (Finite 1000))"

text \<open>
  The object \<open>{ value, expiry: expiryTime }\<close> as \<open>JSON.stringify\<close> takes it: a property
  whose value is \<open>undefined\<close> is left out, and a number that is not finite is written as
  \<open>null\<close>.
\<close>

definition expiring_record :: "jsval \<Rightarrow> number \<Rightarrow> json" where
  "expiring_record val expiryTime =
     JObj ((case val of Undefined \<Rightarrow> [] | Val v \<Rightarrow> [(''value'', v)])
           @ [(''expiry'', case expiryTime of Finite r \<Rightarrow> JNum r | _ \<Rightarrow> JNull)])"

text \<open>
  What the stored expiry is compared as on the next read: a finite number reads back as
  itself; \<open>null\<close>, written for any other, counts as 0.
\<close>

definition stored_number :: "number \<Rightarrow> number" where
  "stored_number e = (case e of Finite r \<Rightarrow> Finite r | _ \<Rightarrow> Finite 0)"

text \<open>
  \<open>setStorageWithExpiry(key, value, expiryMinutes = 60)\<close>, called when the clock reads
  \<open>now\<close>.
\<close>

definition setStorageWithExpiry ::
  "platform \<Rightarrow> int \<Rightarrow> string \<Rightarrow> jsval \<Rightarrow> number option \<Rightarrow> world
     \<Rightarrow> unit completion \<times> world" where
  "setStorageWithExpiry P now key val arg w =
     (let expiryMinutes = (case arg of None \<Rightarrow> Finite 60 | Some m \<Rightarrow> m);
          expiryTime = expiry_time now expiryMinutes
      in and_then (stringify P (expiring_record val expiryTime) w) (\<lambda>item w.
           setItem P key item w))"

text \<open>\<open>getStorageWithExpiry(key)\<close>, called when the clock reads \<open>now\<close>.\<close>

definition getStorageWithExpiry ::
  "platform \<Rightarrow> int \<Rightarrow> string \<Rightarrow> world \<Rightarrow> jsval completion \<times> world" where
  "getStorageWithExpiry P now key w =
     (case localStorage w key of
        None \<Rightarrow> (Normal (Val JNull), w)
      | Some item \<Rightarrow>
          if item = [] then (Normal (Val JNull), w)
          else
            (case JSON_parse P item of
               None \<Rightarrow> (Throw SyntaxError, w)
             | Some data \<Rightarrow>
                 (case get_prop (Val data) ''expiry'' of
                    Normal expiry \<Rightarrow>
                      if greater_than P now expiry
                      then (Normal (Val JNull), removeItem key w)
                      else (get_prop (Val data) ''value'', w)
                  | Throw e \<Rightarrow> (Throw e, w)
                  | Pending \<Rightarrow> (Pending, w))))"

subsection \<open>Template loading\<close>

text \<open>
  What the network answers: a promise is fulfilled, is rejected, or never settles. A
  response carries its status and the outcome of reading its body; \<open>ok\<close> is the status
  range 200 to 299.
\<close>

datatype 'a settlement = Fulfils 'a | Rejects js_error | Never

record response =
  status :: nat
  body :: "string settlement"

definition ok :: "response \<Rightarrow> bool" where
  "ok r = (200 \<le> status r \<and> status r \<le> 299)"

type_synonym network_env = "string \<Rightarrow> response settlement"

text \<open>
  \<open>await fetch(url)\<close>: the call starts the request, and the function goes on only once
  the promise has settled.
\<close>

definition await_fetch :: "network_env \<Rightarrow> string \<Rightarrow> world \<Rightarrow> response completion \<times> world" where
  "await_fetch net url w =
     (let w1 = w\<lparr>network := network w @ [Requested url]\<rparr>
      in case net url of
           Fulfils r \<Rightarrow> (Normal r, w1\<lparr>network := network w1 @ [Settled url]\<rparr>)
         | Rejects e \<Rightarrow> (Throw e, w1\<lparr>network := network w1 @ [Settled url]\<rparr>)
         | Never \<Rightarrow> (Pending, w1))"

definition await_text :: "response \<Rightarrow> world \<Rightarrow> string completion \<times> world" where
  "await_text r w =
     (case body r of
        Fulfils t \<Rightarrow> (Normal t, w)
      | Rejects e \<Rightarrow> (Throw e, w)
      | Never \<Rightarrow> (Pending, w))"

text \<open>
  \<open>document.querySelector(sel).innerHTML = html\<close> for the header and the footer
  container: a \<open>TypeError\<close> when the selector finds nothing.
\<close>

definition set_header_innerHTML :: "string \<Rightarrow> world \<Rightarrow> unit completion \<times> world" where
  "set_header_innerHTML html w =
     (case header_container w of
        None \<Rightarrow> (Throw TypeError, w)
      | Some old \<Rightarrow> (Normal (), w\<lparr>header_container := Some html\<rparr>))"

definition set_footer_innerHTML :: "string \<Rightarrow> world \<Rightarrow> unit completion \<times> world" where
  "set_footer_innerHTML html w =
     (case footer_container w of
        None \<Rightarrow> (Throw TypeError, w)
      | Some old \<Rightarrow> (Normal (), w\<lparr>footer_container := Some html\<rparr>))"

definition console_error :: "log_entry \<Rightarrow> world \<Rightarrow> world" where
  "console_error entry w = w\<lparr>console := console w @ [entry]\<rparr>"

definition addEventListener :: "platform \<Rightarrow> string \<Rightarrow> string \<Rightarrow> world \<Rightarrow> world" where
  "addEventListener P sel type w =
     (if querySelector P w sel then w\<lparr>listeners := listeners w @ [(sel, type)]\<rparr> else w)"

definition attachHeaderEventListeners :: "platform \<Rightarrow> world \<Rightarrow> world" where
  "attachHeaderEventListeners P w =
     (let w1 = addEventListener P ''.login-btn'' ''click'' w;
          w2 = addEventListener P ''.logout-btn'' ''click'' w1;
          w3 = addEventListener P ''.menu-toggle'' ''click'' w2
      in w3)"

definition header_url :: string where
  "header_url = CONFIG_templatePath @ CONFIG_headerFile"

definition footer_url :: string where
  "footer_url = CONFIG_templatePath @ CONFIG_footerFile"

definition loadTemplates :: "platform \<Rightarrow> network_env \<Rightarrow> world \<Rightarrow> unit completion \<times> world" where
  "loadTemplates P net w =
     try_catch
       (and_then (await_fetch net header_url w) (\<lambda>headerResponse w.
        and_then
          (if ok headerResponse then
             and_then (await_text headerResponse w) (\<lambda>headerHTML w.
             and_then (set_header_innerHTML headerHTML w) (\<lambda>u w.
               (Normal (), attachHeaderEventListeners P w)))
           else (Normal (), console_error (HeaderFailed (status headerResponse)) w)) (\<lambda>u w.
        and_then (await_fetch net footer_url w) (\<lambda>footerResponse w.
          if ok footerResponse then
            and_then (await_text footerResponse w) (\<lambda>footerHTML w.
              set_footer_innerHTML footerHTML w)
          else (Normal (), console_error (FooterFailed (status footerResponse)) w)))))
       (\<lambda>error w. (Normal (), console_error (TemplateError error) w))"

subsection \<open>A reference platform\<close>

text \<open>
  An executable instance of the platform parameters, for evaluating the script on concrete
  inputs: a JSON writer and reader for the values of the model (finite doubles, strings of
  code units below 256; the writer refuses a BigInt), ISO timestamps by the proleptic
  Gregorian calendar, decimal literals, a store with room to spare, and class selectors
  looked up in the markup of the three containers.
\<close>

definition hex_digit :: "nat \<Rightarrow> char" where
  "hex_digit n = (if n < 10 then char_of (48 + n) else char_of (87 + n))"

definition quote_char :: "char \<Rightarrow> string" where
  "quote_char c =
     (if c = CHR 0x22 then [CHR 0x5C, CHR 0x22]
      else if c = CHR 0x5C then [CHR 0x5C, CHR 0x5C]
      else if c = CHR 0x08 then [CHR 0x5C, CHR ''b'']
      else if c = CHR 0x0C then [CHR 0x5C, CHR ''f'']
      else if c = CHR 0x0A then [CHR 0x5C, CHR ''n'']
      else if c = CHR 0x0D then [CHR 0x5C, CHR ''r'']
      else if c = CHR 0x09 then [CHR 0x5C, CHR ''t'']
      else if (of_char c :: nat) < 32
        then [CHR 0x5C, CHR ''u'', CHR ''0'', CHR ''0'',
              hex_digit (of_char c div 16), hex_digit (of_char c mod 16)]
      else [c])"

definition quote :: "string \<Rightarrow> string" where
  "quote s = [CHR 0x22] @ concat (map quote_char s) @ [CHR 0x22]"

fun json_write :: "json \<Rightarrow> string option" where
  "json_write JNull = Some ''null''"
| "json_write (JBool b) = Some (if b then ''true'' else ''false'')"
| "json_write (JNum r) = Some (Number_toString r)"
| "json_write (JBigInt n) = None"
| "json_write (JStr s) = Some (quote s)"
| "json_write (JArr xs) =
     map_option (\<lambda>parts. ''['' @ join '','' parts @ '']'') (those (map json_write xs))"
| "json_write (JObj fs) =
     map_option (\<lambda>parts. ''{'' @ join '','' parts @ ''}'')
       (those (map (\<lambda>kv. map_option (\<lambda>s. quote (fst kv) @ '':'' @ s) (json_write (snd kv))) fs))"

definition is_json_space :: "char \<Rightarrow> bool" where
  "is_json_space c = (c = CHR 0x20 \<or> c = CHR 0x09 \<or> c = CHR 0x0A \<or> c = CHR 0x0D)"

definition skip_ws :: "string \<Rightarrow> string" where
  "skip_ws s = dropWhile is_json_space s"

definition is_digit :: "char \<Rightarrow> bool" where
  "is_digit c = (48 \<le> (of_char c :: nat) \<and> (of_char c :: nat) \<le> 57)"

definition digit_val :: "char \<Rightarrow> int" where
  "digit_val c = int (of_char c) - 48"

definition read_nat :: "string \<Rightarrow> int" where
  "read_nat ds = foldl (\<lambda>a c. 10 * a + digit_val c) 0 ds"

definition hex_val :: "char \<Rightarrow> nat option" where
  "hex_val c =
     (let n = (of_char c :: nat)
      in if 48 \<le> n \<and> n \<le> 57 then Some (n - 48)
         else if 97 \<le> n \<and> n \<le> 102 then Some (n - 87)
         else if 65 \<le> n \<and> n \<le> 70 then Some (n - 55)
         else None)"

definition unescape :: "char \<Rightarrow> char option" where
  "unescape e =
     (if e = CHR 0x22 \<or> e = CHR 0x5C \<or> e = CHR ''/'' then Some e
      else if e = CHR ''b'' then Some (CHR 0x08)
      else if e = CHR ''f'' then Some (CHR 0x0C)
      else if e = CHR ''n'' then Some (CHR 0x0A)
      else if e = CHR ''r'' then Some (CHR 0x0D)
      else if e = CHR ''t'' then Some (CHR 0x09)
      else None)"

text \<open>
  The characters of a string literal after its opening quote, up to the closing one, and
  the input that follows.
\<close>

fun read_string :: "string \<Rightarrow> (string \<times> string) option" where
  "read_string [] = None"
| "read_string (c # cs) =
     (if c = CHR 0x22 then Some ([], cs)
      else if c = CHR 0x5C then
        (case cs of
           [] \<Rightarrow> None
         | e # cs' \<Rightarrow>
             if e = CHR ''u'' then
               (case cs' of
                  a # b # h # l # cs'' \<Rightarrow>
                    (case (hex_val a, hex_val b, hex_val h, hex_val l) of
                       (Some 0, Some 0, Some x, Some y) \<Rightarrow>
                         map_option (\<lambda>(str, rest). (char_of (16 * x + y) # str, rest))
                           (read_string cs'')
                     | _ \<Rightarrow> None)
                | _ \<Rightarrow> None)
             else
               (case unescape e of
                  None \<Rightarrow> None
                | Some x \<Rightarrow> map_option (\<lambda>(str, rest). (x # str, rest)) (read_string cs')))
      else if (of_char c :: nat) < 32 then None
      else map_option (\<lambda>(str, rest). (c # str, rest)) (read_string cs))"

text \<open>
  The fraction \<open>.digits\<close> and the exponent \<open>e[+-]digits\<close> at the head of the input, each
  optional: the value read and the input that follows.
\<close>

definition read_fraction :: "string \<Rightarrow> rat \<times> string" where
  "read_fraction s =
     (case s of
        [] \<Rightarrow> (0, s)
      | c # cs \<Rightarrow>
          (let ds = takeWhile is_digit cs
           in if c = CHR ''.'' \<and> ds \<noteq> []
              then (of_int (read_nat ds) / 10 ^ length ds, dropWhile is_digit cs)
              else (0, s)))"

definition read_exponent :: "string \<Rightarrow> int \<times> string" where
  "read_exponent s =
     (case s of
        [] \<Rightarrow> (0, s)
      | c # cs \<Rightarrow>
          (let neg = (case cs of [] \<Rightarrow> False | d # ds \<Rightarrow> d = CHR ''-'');
               signed = (case cs of [] \<Rightarrow> False | d # ds \<Rightarrow> d = CHR ''-'' \<or> d = CHR ''+'');
               t = (if signed then tl cs else cs);
               ds = takeWhile is_digit t
           in if (c = CHR ''e'' \<or> c = CHR ''E'') \<and> ds \<noteq> []
              then (if neg then - read_nat ds else read_nat ds, dropWhile is_digit t)
              else (0, s)))"

text \<open>
  A JSON number: an optional minus, then \<open>0\<close> or digits without a leading zero, then the
  optional fraction and exponent; its value rounded to a double. A literal beyond the
  double range is not read.
\<close>

definition read_number :: "string \<Rightarrow> (rat \<times> string) option" where
  "read_number s =
     (let neg = (case s of [] \<Rightarrow> False | c # cs \<Rightarrow> c = CHR ''-'');
          t = (if neg then tl s else s);
          ds = takeWhile is_digit t;
          (frac, r1) = read_fraction (dropWhile is_digit t);
          (ex, r2) = read_exponent r1;
          v = (of_int (read_nat ds) + frac) * pow10 ex
      in if ds = [] \<or> (length ds > 1 \<and> hd ds = CHR ''0'') then None
         else if (case r1 of [] \<Rightarrow> False | c # cs \<Rightarrow> c = CHR ''.'') then None
         else
           (case round_to_double (if neg then - v else v) of
              Finite r \<Rightarrow> Some (r, r2)
            | _ \<Rightarrow> None))"

definition expect :: "string \<Rightarrow> string \<Rightarrow> string option" where
  "expect lit s = (if take (length lit) s = lit then Some (drop (length lit) s) else None)"

text \<open>
  The reader descends recursively; the first argument bounds the work, so that the
  functions are total. A later member replaces an earlier one with the same key.
\<close>

fun read_value :: "nat \<Rightarrow> string \<Rightarrow> (json \<times> string) option"
  and read_elements :: "nat \<Rightarrow> string \<Rightarrow> (json list \<times> string) option"
  and read_members :: "nat \<Rightarrow> string \<Rightarrow> ((string \<times> json) list \<times> string) option" where
  "read_value 0 s = None"
| "read_value (Suc n) s =
     (case skip_ws s of
        [] \<Rightarrow> None
      | c # cs \<Rightarrow>
          if c = CHR ''n'' then map_option (Pair JNull) (expect ''ull'' cs)
          else if c = CHR ''t'' then map_option (Pair (JBool True)) (expect ''rue'' cs)
          else if c = CHR ''f'' then map_option (Pair (JBool False)) (expect ''alse'' cs)
          else if c = CHR 0x22 then map_option (\<lambda>(str, rest). (JStr str, rest)) (read_string cs)
          else if c = CHR ''['' then
            (case expect '']'' (skip_ws cs) of
               Some rest \<Rightarrow> Some (JArr [], rest)
             | None \<Rightarrow> map_option (\<lambda>(vs, rest). (JArr vs, rest)) (read_elements n cs))
          else if c = CHR ''{'' then
            (case expect ''}'' (skip_ws cs) of
               Some rest \<Rightarrow> Some (JObj [], rest)
             | None \<Rightarrow>
                 map_option
                   (\<lambda>(fs, rest). (JObj (foldl (\<lambda>acc kv. AList.update (fst kv) (snd kv) acc) [] fs), rest))
                   (read_members n cs))
          else map_option (\<lambda>(i, rest). (JNum i, rest)) (read_number (c # cs)))"
| "read_elements 0 s = None"
| "read_elements (Suc n) s =
     (case read_value n s of
        None \<Rightarrow> None
      | Some (v, rest) \<Rightarrow>
          (case skip_ws rest of
             [] \<Rightarrow> None
           | c # cs \<Rightarrow>
               if c = CHR '']'' then Some ([v], cs)
               else if c = CHR '','' then
                 map_option (\<lambda>(vs, r). (v # vs, r)) (read_elements n cs)
               else None))"
| "read_members 0 s = None"
| "read_members (Suc n) s =
     (case skip_ws s of
        [] \<Rightarrow> None
      | q # s1 \<Rightarrow>
          if q \<noteq> CHR 0x22 then None
          else
            (case read_string s1 of
               None \<Rightarrow> None
             | Some (k, s2) \<Rightarrow>
                 (case expect '':'' (skip_ws s2) of
                    None \<Rightarrow> None
                  | Some s3 \<Rightarrow>
                      (case read_value n s3 of
                         None \<Rightarrow> None
                       | Some (v, rest) \<Rightarrow>
                           (case skip_ws rest of
                              [] \<Rightarrow> None
                            | c # cs \<Rightarrow>
                                if c = CHR ''}'' then Some ([(k, v)], cs)
                                else if c = CHR '','' then
                                  map_option (\<lambda>(fs, r). ((k, v) # fs, r)) (read_members n cs)
                                else None)))))"

definition json_read :: "string \<Rightarrow> json option" where
  "json_read s =
     (case read_value (Suc (length s)) s of
        None \<Rightarrow> None
      | Some (v, rest) \<Rightarrow> if skip_ws rest = [] then Some v else None)"

definition pad :: "nat \<Rightarrow> int \<Rightarrow> string" where
  "pad width n = replicate (width - length (show_digits n)) CHR ''0'' @ show_digits n"

text \<open>The civil date (year, month, day) of a day number counted from 1970-01-01.\<close>

definition civil_from_days :: "int \<Rightarrow> int \<times> int \<times> int" where
  "civil_from_days days =
     (let z = days + 719468;
          era = z div 146097;
          doe = z - era * 146097;
          yoe = (doe - doe div 1460 + doe div 36524 - doe div 146096) div 365;
          doy = doe - (365 * yoe + yoe div 4 - yoe div 100);
          mp = (5 * doy + 2) div 153;
          d = doy - (153 * mp + 2) div 5 + 1;
          m = (if mp < 10 then mp + 3 else mp - 9);
          y = yoe + era * 400 + (if m \<le> 2 then 1 else 0)
      in (y, m, d))"

definition iso_year :: "int \<Rightarrow> string" where
  "iso_year y =
     (if 0 \<le> y \<and> y \<le> 9999 then pad 4 y
      else if y < 0 then CHR ''-'' # pad 6 (- y)
      else CHR ''+'' # pad 6 y)"

definition iso_string :: "int \<Rightarrow> string" where
  "iso_string t =
     (let (y, m, d) = civil_from_days (t div 86400000);
          ms = t mod 86400000
      in iso_year y @ ''-'' @ pad 2 m @ ''-'' @ pad 2 d @ ''T'' @
         pad 2 (ms div 3600000) @ '':'' @ pad 2 (ms div 60000 mod 60) @ '':'' @
         pad 2 (ms div 1000 mod 60) @ ''.'' @ pad 3 (ms mod 1000) @ ''Z'')"

text \<open>
  A string as a number: white space trimmed, the empty string is 0; a signed decimal
  literal or \<open>Infinity\<close>; anything else is \<open>NaN\<close> (literals in another radix
  are not read).
\<close>

definition string_to_number :: "string \<Rightarrow> number" where
  "string_to_number s =
     (let t = rev (dropWhile is_space (rev (dropWhile is_space s)));
          neg = (case t of [] \<Rightarrow> False | c # cs \<Rightarrow> c = CHR ''-'');
          u = (case t of [] \<Rightarrow> [] | c # cs \<Rightarrow> if c = CHR ''-'' \<or> c = CHR ''+'' then cs else t);
          ds = takeWhile is_digit u;
          (frac, r1) = read_fraction (dropWhile is_digit u);
          dot = (case r1 of [] \<Rightarrow> False | c # cs \<Rightarrow> c = CHR ''.'' \<and> ds \<noteq> []);
          (ex, r2) = read_exponent (if dot then tl r1 else r1);
          v = (of_int (read_nat ds) + frac) * pow10 ex
      in if t = [] then Finite 0
         else if u = ''Infinity'' then (if neg then NegInf else PosInf)
         else if (ds \<noteq> [] \<or> r1 \<noteq> dropWhile is_digit u) \<and> r2 = []
           then round_to_double (if neg then - v else v)
         else NaN)"

fun is_prefix :: "string \<Rightarrow> string \<Rightarrow> bool" where
  "is_prefix [] ys = True"
| "is_prefix (x # xs) [] = False"
| "is_prefix (x # xs) (y # ys) = (x = y \<and> is_prefix xs ys)"

fun contains :: "string \<Rightarrow> string \<Rightarrow> bool" where
  "contains sub [] = (sub = [])"
| "contains sub (c # cs) = (is_prefix sub (c # cs) \<or> contains sub cs)"

definition markup_of :: "world \<Rightarrow> string" where
  "markup_of w =
     concat (map (\<lambda>c. case c of None \<Rightarrow> [] | Some html \<Rightarrow> html)
               [header_container w, footer_container w, auth_container w])"

definition class_selector :: "world \<Rightarrow> string \<Rightarrow> bool" where
  \<open>class_selector w sel =
     (case sel of
        [] \<Rightarrow> False
      | c # cls \<Rightarrow> c = CHR ''.'' \<and> contains (''class="'' @ cls @ ''"'') (markup_of w))\<close>

definition reference_platform :: platform where
  "reference_platform =
     \<lparr>JSON_parse = json_read,
      JSON_stringify = json_write,
      toISOString = iso_string,
      StringToNumber = string_to_number,
      quota_exceeded = (\<lambda>store k v. False),
      querySelector = class_selector\<rparr>"

subsection \<open>Outcomes of a template fetch\<close>

text \<open>
  A fetch has failed when its promise is rejected, when the response has a non-success
  status, or when reading the body of a success response is rejected; it has succeeded
  when a success response delivers its text.
\<close>

definition fetch_failed :: "response settlement \<Rightarrow> bool" where
  "fetch_failed s =
     (case s of
        Rejects e \<Rightarrow> True
      | Fulfils r \<Rightarrow> \<not> ok r \<or> (case body r of Rejects e \<Rightarrow> True | _ \<Rightarrow> False)
      | Never \<Rightarrow> False)"

definition fetch_succeeds :: "response settlement \<Rightarrow> bool" where
  "fetch_succeeds s =
     (case s of
        Fulfils r \<Rightarrow> ok r \<and> (case body r of Fulfils t \<Rightarrow> True | _ \<Rightarrow> False)
      | _ \<Rightarrow> False)"

subsection \<open>The two authentication keys\<close>

definition auth_keys_present :: "(string \<rightharpoonup> string) \<Rightarrow> bool" where
  "auth_keys_present s = (s CONFIG_storageKey \<noteq> None \<and> s CONFIG_userDataKey \<noteq> None)"

definition auth_keys_absent :: "(string \<rightharpoonup> string) \<Rightarrow> bool" where
  "auth_keys_absent s = (s CONFIG_storageKey = None \<and> s CONFIG_userDataKey = None)"

definition auth_keys_synced :: "(string \<rightharpoonup> string) \<Rightarrow> bool" where
  "auth_keys_synced s = (auth_keys_present s \<or> auth_keys_absent s)"

subsection \<open>Example pages and networks\<close>

definition blank_page :: world where
  "blank_page =
     \<lparr>localStorage = Map.empty,
      header_container = Some [],
      footer_container = Some [],
      auth_container = Some [],
      listeners = [],
      dispatched = [],
      console = [],
      network = [],
      location_href = ''/index.html''\<rparr>"

definition corrupt_storage :: "string \<rightharpoonup> string" where
  "corrupt_storage = [CONFIG_storageKey \<mapsto> ''true'', CONFIG_userDataKey \<mapsto> ''{oops'']"

definition empty_record_storage :: "string \<rightharpoonup> string" where
  "empty_record_storage = [CONFIG_storageKey \<mapsto> ''true'', CONFIG_userDataKey \<mapsto> []]"

definition page_without_auth :: world where
  "page_without_auth = blank_page\<lparr>auth_container := None, localStorage := corrupt_storage\<rparr>"

definition page_corrupt :: world where
  "page_corrupt = blank_page\<lparr>localStorage := corrupt_storage\<rparr>"

definition page_empty_record :: world where
  "page_empty_record = blank_page\<lparr>localStorage := empty_record_storage\<rparr>"

definition alice :: jsval where
  "alice = Val (JObj [(''email'', JStr ''a@b.com'')])"

definition sample :: jsval where
  "sample = Val (JObj [(''a'', JNum 1)])"

definition bigint_user :: jsval where
  "bigint_user = Val (JObj [(''id'', JBigInt 10)])"

definition net_footer_500 :: network_env where
  "net_footer_500 url =
     (if url = header_url then Fulfils \<lparr>status = 200, body = Fulfils ''<nav></nav>''\<rparr>
      else Fulfils \<lparr>status = 500, body = Fulfils ''Server Error''\<rparr>)"

definition served :: "nat \<Rightarrow> string \<Rightarrow> response settlement" where
  "served code html = Fulfils \<lparr>status = code, body = Fulfils html\<rparr>"

definition net_header_rejected :: network_env where
  "net_header_rejected url =
     (if url = header_url then Rejects TypeError else served 200 ''<p>footer</p>'')"

definition net_header_404 :: network_env where
  "net_header_404 url =
     (if url = header_url then served 404 ''Not Found'' else served 200 ''<p>footer</p>'')"

definition net_both_ok :: network_env where
  "net_both_ok url =
     (if url = header_url then served 200 ''<nav></nav>'' else served 200 ''<p>footer</p>'')"

section \<open>Properties\<close>

subsection \<open>Email validation\<close>

text \<open>The matcher decides membership in the language of the pattern.\<close>

lemma nullable_lang: "nullable r \<longleftrightarrow> [] \<in> lang r"
  by (induction r) (auto simp: conc_def intro: star.intros)

lemma lang_seq: "lang (seq r s) = conc (lang r) (lang s)"
  by (cases r) (auto simp: conc_def)

lemma tails_conc:
  "tails c (conc A B) = conc (tails c A) B \<union> (if [] \<in> A then tails c B else {})"
  by (auto simp: tails_def conc_def Cons_eq_append_conv)

lemma star_cons_split:
  assumes "w \<in> star L" and "w = c # v"
  shows "\<exists>u t. v = u @ t \<and> c # u \<in> L \<and> t \<in> star L"
  using assms
proof (induction arbitrary: v rule: star.induct)
  case star_empty
  then show ?case by simp
next
  case (star_more u t)
  show ?case
  proof (cases u)
    case Nil
    with star_more show ?thesis by simp
  next
    case (Cons a u')
    with star_more.prems have "a = c" and "v = u' @ t" by simp_all
    with Cons star_more.hyps show ?thesis by blast
  qed
qed

lemma tails_star: "tails c (star L) = conc (tails c L) (star L)"
proof
  show "tails c (star L) \<subseteq> conc (tails c L) (star L)"
    using star_cons_split by (fastforce simp: tails_def conc_def)
  show "conc (tails c L) (star L) \<subseteq> tails c (star L)"
  proof
    fix w assume "w \<in> conc (tails c L) (star L)"
    then obtain u t where "w = u @ t" "c # u \<in> L" "t \<in> star L"
      by (auto simp: conc_def tails_def)
    then have "(c # u) @ t \<in> star L" by (blast intro: star_more)
    with \<open>w = u @ t\<close> show "w \<in> tails c (star L)" by (simp add: tails_def)
  qed
qed

lemma star_unfold: "star L = {[]} \<union> conc L (star L)"
proof
  show "star L \<subseteq> {[]} \<union> conc L (star L)"
  proof
    fix w assume "w \<in> star L"
    then show "w \<in> {[]} \<union> conc L (star L)"
      by (cases rule: star.cases) (auto simp: conc_def)
  qed
  show "{[]} \<union> conc L (star L) \<subseteq> star L"
    by (auto simp: conc_def intro: star.intros)
qed

lemma residuals_lang: "(\<Union>r' \<in> set (residuals c r). lang r') = tails c (lang r)"
proof (induction r)
  case (Seq r s)
  have "(\<Union>r' \<in> set (residuals c (Seq r s)). lang r') =
        conc (\<Union>r' \<in> set (residuals c r). lang r') (lang s) \<union>
        (if nullable r then (\<Union>r' \<in> set (residuals c s). lang r') else {})"
    by (auto simp: lang_seq conc_def)
  then show ?case
    using Seq by (simp add: tails_conc nullable_lang)
next
  case (Star r)
  have "(\<Union>r' \<in> set (residuals c (Star r)). lang r') =
        conc (\<Union>r' \<in> set (residuals c r). lang r') (star (lang r))"
    by (auto simp: lang_seq conc_def)
  then show ?case using Star by (simp add: tails_star)
next
  case (Plus r)
  have "(\<Union>r' \<in> set (residuals c (Plus r)). lang r') =
        conc (\<Union>r' \<in> set (residuals c r). lang r') (star (lang r))"
    by (auto simp: lang_seq conc_def)
  moreover have "tails c (conc (lang r) (star (lang r))) = conc (tails c (lang r)) (star (lang r))"
    by (auto simp: tails_conc tails_star)
  ultimately show ?case using Plus by simp
qed (auto simp: tails_def)

lemma run_lang: "run rs w \<longleftrightarrow> (\<exists>r \<in> set rs. w \<in> lang r)"
proof (induction w arbitrary: rs)
  case Nil
  then show ?case by (auto simp: list_ex_iff nullable_lang)
next
  case (Cons c w)
  have "(\<exists>r' \<in> set (remdups (concat (map (residuals c) rs))). w \<in> lang r') \<longleftrightarrow>
        (\<exists>r \<in> set rs. w \<in> (\<Union>r' \<in> set (residuals c r). lang r'))"
    by auto
  also have "\<dots> \<longleftrightarrow> (\<exists>r \<in> set rs. c # w \<in> lang r)"
    by (simp only: residuals_lang) (simp add: tails_def)
  finally show ?case using Cons.IH by simp
qed

lemma full_match_lang: "full_match r w \<longleftrightarrow> w \<in> lang r"
  by (simp add: full_match_def run_lang)


lemma star_singletons: "star {[c] | c. Q c} = {w. \<forall>c \<in> set w. Q c}"
proof
  show "star {[c] | c. Q c} \<subseteq> {w. \<forall>c \<in> set w. Q c}"
  proof
    fix w assume "w \<in> star {[c] | c. Q c}"
    then show "w \<in> {w. \<forall>c \<in> set w. Q c}"
      by (induction rule: star.induct) auto
  qed
  show "{w. \<forall>c \<in> set w. Q c} \<subseteq> star {[c] | c. Q c}"
  proof
    fix w assume "w \<in> {w. \<forall>c \<in> set w. Q c}"
    then have "\<forall>c \<in> set w. Q c" by simp
    then show "w \<in> star {[c] | c. Q c}"
    proof (induction w)
      case Nil
      show ?case by (rule star_empty)
    next
      case (Cons a w)
      then have "[a] \<in> {[c] | c. Q c}" and "w \<in> star {[c] | c. Q c}" by auto
      then have "[a] @ w \<in> star {[c] | c. Q c}" by (rule star_more)
      then show ?case by simp
    qed
  qed
qed

text \<open>
  The strings \<open>isValidEmail\<close> accepts: a non-empty local part, \<open>@\<close>, a non-empty
  part, a dot and a non-empty last part, the three parts free of white space and \<open>@\<close>.
\<close>

lemma lang_plain_plus:
  "lang (Plus (NoneOf [WhiteSpace, Lit CHR ''@''])) = {w. w \<noteq> [] \<and> (\<forall>c \<in> set w. plain c)}"
proof -
  have "lang (NoneOf [WhiteSpace, Lit CHR ''@'']) = {[c] | c. plain c}"
    by (auto simp: plain_def)
  then have "lang (Plus (NoneOf [WhiteSpace, Lit CHR ''@''])) =
             conc {[c] | c. plain c} {w. \<forall>c \<in> set w. plain c}"
    by (simp add: star_singletons)
  also have "\<dots> = {w. w \<noteq> [] \<and> (\<forall>c \<in> set w. plain c)}"
  proof
    show "conc {[c] | c. plain c} {w. \<forall>c \<in> set w. plain c}
            \<subseteq> {w. w \<noteq> [] \<and> (\<forall>c \<in> set w. plain c)}"
      by (auto simp: conc_def)
    show "{w. w \<noteq> [] \<and> (\<forall>c \<in> set w. plain c)}
            \<subseteq> conc {[c] | c. plain c} {w. \<forall>c \<in> set w. plain c}"
    proof
      fix w assume "w \<in> {w. w \<noteq> [] \<and> (\<forall>c \<in> set w. plain c)}"
      then obtain a v where "w = [a] @ v" "plain a" "\<forall>c \<in> set v. plain c"
        by (cases w) auto
      then show "w \<in> conc {[c] | c. plain c} {w. \<forall>c \<in> set w. plain c}"
        unfolding conc_def by blast
    qed
  qed
  finally show ?thesis .
qed

lemma isValidEmail_shape:
  "isValidEmail s \<longleftrightarrow>
     (\<exists>a b c. s = a @ ''@'' @ b @ ''.'' @ c \<and> a \<noteq> [] \<and> b \<noteq> [] \<and> c \<noteq> [] \<and>
              (\<forall>x \<in> set (a @ b @ c). plain x))"
proof -
  let ?W = "{w. w \<noteq> [] \<and> (\<forall>c \<in> set w. plain c)}"
  have "isValidEmail s \<longleftrightarrow>
        s \<in> conc ?W (conc {''@''} (conc ?W (conc {''.''} ?W)))"
    by (simp add: isValidEmail_def full_match_lang emailRegex_def lang_plain_plus
        del: lang.simps(7))
  also have "\<dots> \<longleftrightarrow>
     (\<exists>a b c. s = a @ ''@'' @ b @ ''.'' @ c \<and> a \<in> ?W \<and> b \<in> ?W \<and> c \<in> ?W)"
    unfolding conc_def by blast
  also have "\<dots> \<longleftrightarrow>
     (\<exists>a b c. s = a @ ''@'' @ b @ ''.'' @ c \<and> a \<noteq> [] \<and> b \<noteq> [] \<and> c \<noteq> [] \<and>
              (\<forall>x \<in> set (a @ b @ c). plain x))"
    by (auto simp: ball_Un)
  finally show ?thesis .
qed

text \<open>
  C8. \<open>isValidEmail\<close> returns true for \<open>a@b.co\<close> and \<open>user@example.com\<close>, and false for
  \<open>a@b\<close>, \<open>@b.co\<close>, \<open>a b@c.com\<close>, \<open>user@\<close>, \<open>@example.com\<close> and
  \<open>user example.com\<close>.
\<close>

theorem isValidEmail_examples:
  "isValidEmail ''a@b.co'' \<and> isValidEmail ''user@example.com'' \<and>
   \<not> isValidEmail ''a@b'' \<and> \<not> isValidEmail ''@b.co'' \<and> \<not> isValidEmail ''a b@c.com'' \<and>
   \<not> isValidEmail ''user@'' \<and> \<not> isValidEmail ''@example.com'' \<and>
   \<not> isValidEmail ''user example.com''"
proof -
  have "isValidEmail ''a@b.co''" by code_simp
  moreover have "isValidEmail ''user@example.com''" by code_simp
  moreover have "\<not> isValidEmail ''a@b''" by code_simp
  moreover have "\<not> isValidEmail ''@b.co''" by code_simp
  moreover have "\<not> isValidEmail ''a b@c.com''" by code_simp
  moreover have "\<not> isValidEmail ''user@''" by code_simp
  moreover have "\<not> isValidEmail ''@example.com''" by code_simp
  moreover have "\<not> isValidEmail ''user example.com''" by code_simp
  ultimately show ?thesis by blast
qed

subsection \<open>HTML escaping\<close>

lemma escapeHTML_string: "escapeHTML (Val (JStr s)) = concat (map escape_char s)"
  by (simp add: escapeHTML_def set_textContent_def get_innerHTML_def)

lemma escape_char_no_angle:
  "CHR ''<'' \<notin> set (escape_char c) \<and> CHR ''>'' \<notin> set (escape_char c)"
  by (simp add: escape_char_def)

text \<open>
  C6, as stated, fails: the text-node serialisation that \<open>escapeHTML\<close> relies on copies
  the double and the single quote, so \<open>escapeHTML\<close> of the two-character string \<open>"'\<close> is
  that string itself.
\<close>

theorem escapeHTML_quotes_counterexample:
  "escapeHTML (Val (JStr [CHR 0x22, CHR 0x27])) = [CHR 0x22, CHR 0x27]"
  by (simp add: escapeHTML_string escape_char_def)

text \<open>
  C6, amended. \<open>escapeHTML("<b>x</b>")\<close> is \<open>&lt;b&gt;x&lt;/b&gt;\<close>; for every input
  string the output contains neither \<open><\<close> nor \<open>>\<close>, and each occurrence of \<open><\<close>,
  \<open>>\<close> and \<open>&\<close> is replaced by its entity \<open>&lt;\<close>, \<open>&gt;\<close>, \<open>&amp;\<close>, whatever
  surrounds it; each occurrence of \<open>"\<close> and \<open>'\<close> is copied unchanged.
\<close>

theorem escapeHTML_escapes_markup:
  "escapeHTML (Val (JStr ''<b>x</b>'')) = ''&lt;b&gt;x&lt;/b&gt;'' \<and>
   CHR ''<'' \<notin> set (escapeHTML (Val (JStr s))) \<and>
   CHR ''>'' \<notin> set (escapeHTML (Val (JStr s))) \<and>
   escapeHTML (Val (JStr (xs @ ''<'' @ ys))) =
     escapeHTML (Val (JStr xs)) @ ''&lt;'' @ escapeHTML (Val (JStr ys)) \<and>
   escapeHTML (Val (JStr (xs @ ''>'' @ ys))) =
     escapeHTML (Val (JStr xs)) @ ''&gt;'' @ escapeHTML (Val (JStr ys)) \<and>
   escapeHTML (Val (JStr (xs @ ''&'' @ ys))) =
     escapeHTML (Val (JStr xs)) @ ''&amp;'' @ escapeHTML (Val (JStr ys)) \<and>
   escapeHTML (Val (JStr (xs @ [CHR 0x22] @ ys))) =
     escapeHTML (Val (JStr xs)) @ [CHR 0x22] @ escapeHTML (Val (JStr ys)) \<and>
   escapeHTML (Val (JStr (xs @ [CHR 0x27] @ ys))) =
     escapeHTML (Val (JStr xs)) @ [CHR 0x27] @ escapeHTML (Val (JStr ys))"
proof -
  have ex: "escapeHTML (Val (JStr ''<b>x</b>'')) = ''&lt;b&gt;x&lt;/b&gt;''"
    by (simp add: escapeHTML_string escape_char_def)
  have lt: "CHR ''<'' \<notin> set (escapeHTML (Val (JStr s)))"
    using escape_char_no_angle by (simp add: escapeHTML_string)
  have gt: "CHR ''>'' \<notin> set (escapeHTML (Val (JStr s)))"
    using escape_char_no_angle by (simp add: escapeHTML_string)
  have hom: "escapeHTML (Val (JStr (xs @ [c] @ ys))) =
      escapeHTML (Val (JStr xs)) @ escape_char c @ escapeHTML (Val (JStr ys))" for c
    by (simp add: escapeHTML_string)
  show ?thesis
    using ex lt gt hom [of "CHR ''<''"] hom [of "CHR ''>''"] hom [of "CHR ''&''"]
      hom [of "CHR 0x22"] hom [of "CHR 0x27"]
    by (simp add: escape_char_def)
qed

subsection \<open>Rendering the authentication state\<close>

lemma updateAuthUI_storage: "localStorage (snd (updateAuthUI P w)) = localStorage w"
  by (simp add: updateAuthUI_def Let_def split: option.splits completion.splits)

lemma updateAuthUI_logged_out: "\<not> isLoggedIn w \<Longrightarrow> fst (updateAuthUI P w) = Normal ()"
  by (simp add: updateAuthUI_def split: option.splits)

lemma oops_unreadable: "JSON_parse reference_platform ''{oops'' = None"
  unfolding reference_platform_def by code_simp

lemma empty_unreadable: "JSON_parse reference_platform [] = None"
  unfolding reference_platform_def by code_simp

text \<open>
  C9. \<open>updateAuthUI\<close> is idempotent: with storage unchanged, a second call ends as the
  first did and leaves the page exactly as the first call left it, the authentication
  container included.
\<close>

theorem updateAuthUI_idempotent:
  "updateAuthUI P (snd (updateAuthUI P w)) = updateAuthUI P w"
  by (simp add: updateAuthUI_def isLoggedIn_def getUserData_def Let_def
      split: option.splits completion.splits)

text \<open>
  C10. When no element matches the authentication container's selector, \<open>updateAuthUI\<close>
  returns normally and changes nothing, neither the page nor storage, whatever the login
  flag and the user record hold.
\<close>

theorem updateAuthUI_no_container:
  "auth_container w = None \<Longrightarrow> updateAuthUI P w = (Normal (), w)"
  by (simp add: updateAuthUI_def)

theorem updateAuthUI_no_container_witness:
  "auth_container page_without_auth = None \<and>
   isLoggedIn page_without_auth \<and>
   updateAuthUI reference_platform page_without_auth = (Normal (), page_without_auth)"
proof -
  have h: "auth_container page_without_auth = None"
    by (simp add: page_without_auth_def)
  have l: "isLoggedIn page_without_auth"
    by (simp add: isLoggedIn_def page_without_auth_def corrupt_storage_def
        CONFIG_storageKey_def CONFIG_userDataKey_def)
  show ?thesis using h l updateAuthUI_no_container [OF h] by simp
qed

text \<open>
  C3, as stated, fails twice. On a page without the authentication container the call
  returns before it reads storage, so the unparseable record \<open>{oops\<close> raises nothing; and
  a stored record that is the empty string, which \<open>JSON.parse\<close> rejects, is falsy and is
  never parsed.
\<close>

theorem updateAuthUI_malformed_counterexample:
  "localStorage page_without_auth CONFIG_storageKey = Some ''true'' \<and>
   localStorage page_without_auth CONFIG_userDataKey = Some ''{oops'' \<and>
   JSON_parse reference_platform ''{oops'' = None \<and>
   updateAuthUI reference_platform page_without_auth = (Normal (), page_without_auth) \<and>
   localStorage page_empty_record CONFIG_storageKey = Some ''true'' \<and>
   localStorage page_empty_record CONFIG_userDataKey = Some [] \<and>
   JSON_parse reference_platform [] = None \<and>
   fst (updateAuthUI reference_platform page_empty_record) = Normal ()"
proof -
  have "localStorage page_without_auth CONFIG_storageKey = Some ''true''"
    by (simp add: page_without_auth_def corrupt_storage_def CONFIG_storageKey_def
        CONFIG_userDataKey_def)
  moreover have "localStorage page_without_auth CONFIG_userDataKey = Some ''{oops''"
    by (simp add: page_without_auth_def corrupt_storage_def)
  moreover have
    "updateAuthUI reference_platform page_without_auth = (Normal (), page_without_auth)"
    by (simp add: updateAuthUI_def page_without_auth_def)
  moreover have "localStorage page_empty_record CONFIG_storageKey = Some ''true''"
    by (simp add: page_empty_record_def empty_record_storage_def CONFIG_storageKey_def
        CONFIG_userDataKey_def)
  moreover have "localStorage page_empty_record CONFIG_userDataKey = Some []"
    by (simp add: page_empty_record_def empty_record_storage_def)
  moreover have "fst (updateAuthUI reference_platform page_empty_record) = Normal ()"
    by (simp add: updateAuthUI_def isLoggedIn_def getUserData_def page_empty_record_def
        empty_record_storage_def blank_page_def CONFIG_storageKey_def CONFIG_userDataKey_def)
  ultimately show ?thesis using oops_unreadable empty_unreadable by simp
qed

text \<open>
  C3, amended. If the page has an authentication container, the login flag is \<open>'true'\<close>
  and the stored user record is a non-empty string that \<open>JSON.parse\<close> rejects, then
  \<open>updateAuthUI\<close> throws the \<open>SyntaxError\<close> to its caller and leaves the page as it was.
\<close>

theorem updateAuthUI_malformed_record:
  assumes "auth_container w = Some html"
    and "localStorage w CONFIG_storageKey = Some ''true''"
    and "localStorage w CONFIG_userDataKey = Some d"
    and "d \<noteq> []"
    and "JSON_parse P d = None"
  shows "updateAuthUI P w = (Throw SyntaxError, w)"
  using assms by (simp add: updateAuthUI_def isLoggedIn_def getUserData_def)

theorem updateAuthUI_malformed_record_witness:
  "auth_container page_corrupt = Some [] \<and>
   localStorage page_corrupt CONFIG_storageKey = Some ''true'' \<and>
   localStorage page_corrupt CONFIG_userDataKey = Some ''{oops'' \<and>
   JSON_parse reference_platform ''{oops'' = None \<and>
   updateAuthUI reference_platform page_corrupt = (Throw SyntaxError, page_corrupt)"
proof -
  have a: "auth_container page_corrupt = Some []"
    by (simp add: page_corrupt_def blank_page_def)
  have f: "localStorage page_corrupt CONFIG_storageKey = Some ''true''"
    by (simp add: page_corrupt_def corrupt_storage_def CONFIG_storageKey_def
        CONFIG_userDataKey_def)
  have d: "localStorage page_corrupt CONFIG_userDataKey = Some ''{oops''"
    by (simp add: page_corrupt_def corrupt_storage_def)
  have n: "''{oops'' \<noteq> []" by simp
  show ?thesis
    using a f d oops_unreadable updateAuthUI_malformed_record [OF a f d n oops_unreadable]
    by simp
qed

subsection \<open>Login and logout\<close>

text \<open>What \<open>login\<close> leaves in the store, by the step at which it stops.\<close>

lemma login_storage:
  "localStorage (snd (login P now u w)) =
     (if quota_exceeded P (localStorage w) CONFIG_storageKey ''true'' then localStorage w
      else
        (case JSON_stringify P (login_record (default_user u) (toISOString P now)) of
           None \<Rightarrow> (localStorage w)(CONFIG_storageKey \<mapsto> ''true'')
         | Some s \<Rightarrow>
             if quota_exceeded P ((localStorage w)(CONFIG_storageKey \<mapsto> ''true''))
                  CONFIG_userDataKey s
             then (localStorage w)(CONFIG_storageKey \<mapsto> ''true'')
             else (localStorage w)(CONFIG_storageKey \<mapsto> ''true'', CONFIG_userDataKey \<mapsto> s)))"
  by (simp add: login_def Let_def and_then_def setItem_def stringify_def updateAuthUI_storage
      dispatchEvent_def split: option.splits)

lemma login_throws_before_second_write:
  assumes "quota_exceeded P (localStorage w) CONFIG_storageKey ''true'' \<or>
           (case JSON_stringify P (login_record (default_user u) (toISOString P now)) of
              None \<Rightarrow> True
            | Some s \<Rightarrow> quota_exceeded P ((localStorage w)(CONFIG_storageKey \<mapsto> ''true''))
                          CONFIG_userDataKey s)"
  shows "\<exists>e. fst (login P now u w) = Throw e"
  using assms
  by (auto simp: login_def Let_def and_then_def setItem_def stringify_def split: option.splits)

lemma keys_distinct: "CONFIG_storageKey \<noteq> CONFIG_userDataKey"
  by (simp add: CONFIG_storageKey_def CONFIG_userDataKey_def)

lemma logout_returns: "fst (logout P w) = Normal ()"
proof -
  let ?w3 = "dispatchEvent UserLogout
               (removeItem CONFIG_userDataKey (removeItem CONFIG_storageKey w))"
  have "\<not> isLoggedIn ?w3"
    by (simp add: isLoggedIn_def removeItem_def dispatchEvent_def
        CONFIG_storageKey_def CONFIG_userDataKey_def)
  then have "fst (updateAuthUI P ?w3) = Normal ()"
    by (rule updateAuthUI_logged_out)
  then show ?thesis
    by (cases "updateAuthUI P ?w3") (simp add: logout_def Let_def)
qed

lemma logout_storage:
  "localStorage (snd (logout P w)) =
     (localStorage w)(CONFIG_storageKey := None, CONFIG_userDataKey := None)"
proof -
  let ?w3 = "dispatchEvent UserLogout
               (removeItem CONFIG_userDataKey (removeItem CONFIG_storageKey w))"
  have "localStorage (snd (logout P w)) = localStorage (snd (updateAuthUI P ?w3))"
    by (simp add: logout_def Let_def split: prod.splits completion.splits)
  then show ?thesis
    by (simp add: updateAuthUI_storage removeItem_def dispatchEvent_def)
qed

lemma alice_record_written:
  "JSON_stringify reference_platform
     (login_record (default_user alice) (toISOString reference_platform 0)) \<noteq> None"
  unfolding reference_platform_def by code_simp

lemma bigint_record_refused:
  "JSON_stringify reference_platform
     (login_record (default_user bigint_user) (toISOString reference_platform 0)) = None"
  unfolding reference_platform_def by code_simp

lemma reference_quota: "\<not> quota_exceeded reference_platform store k v"
  by (simp add: reference_platform_def)

lemma alice_record_read:
  "JSON_parse reference_platform
     (the (JSON_stringify reference_platform
        (login_record (default_user alice) (toISOString reference_platform 0)))) \<noteq> None"
  unfolding reference_platform_def by code_simp

text \<open>
  C4. From any storage in which both authentication keys are absent, and for any argument,
  \<open>login\<close> followed by \<open>logout\<close> leaves storage exactly as it was before the login, both
  keys absent again. The world \<open>logout\<close> starts from is the one \<open>login\<close> leaves, whether
  \<open>login\<close> returned or threw at any of its steps; \<open>logout\<close> itself returns normally.
\<close>

theorem login_logout_round_trip:
  assumes "localStorage w CONFIG_storageKey = None"
    and "localStorage w CONFIG_userDataKey = None"
  shows "localStorage (snd (logout P (snd (login P now u w)))) = localStorage w \<and>
         auth_keys_absent (localStorage (snd (logout P (snd (login P now u w))))) \<and>
         fst (logout P (snd (login P now u w))) = Normal ()"
proof -
  have "localStorage (snd (logout P (snd (login P now u w)))) = localStorage w"
    using assms by (auto simp: logout_storage login_storage split: option.splits)
  then show ?thesis
    using assms by (simp add: auth_keys_absent_def logout_returns)
qed

theorem login_logout_round_trip_witness:
  "localStorage blank_page CONFIG_storageKey = None \<and>
   localStorage blank_page CONFIG_userDataKey = None \<and>
   auth_keys_present (localStorage (snd (login reference_platform 0 alice blank_page))) \<and>
   localStorage (snd (logout reference_platform (snd (login reference_platform 0 alice blank_page))))
     = localStorage blank_page"
proof -
  have a: "localStorage blank_page CONFIG_storageKey = None"
    by (simp add: blank_page_def)
  have b: "localStorage blank_page CONFIG_userDataKey = None"
    by (simp add: blank_page_def)
  have c: "auth_keys_present (localStorage (snd (login reference_platform 0 alice blank_page)))"
    using alice_record_written keys_distinct
    by (auto simp: login_storage auth_keys_present_def reference_quota)
  show ?thesis
    using a b c login_logout_round_trip [OF a b, of reference_platform 0 alice] by simp
qed

text \<open>
  C5, as stated, fails. \<open>login\<close> writes the flag before it serialises the record: called
  on a logged-out page with \<open>{ id: 10n }\<close>, \<open>JSON.stringify\<close> throws a \<open>TypeError\<close> on
  the BigInt after the flag is in the store, and the call ends with the flag present and
  the user record absent.
\<close>

theorem login_partial_write_counterexample:
  "auth_keys_synced (localStorage blank_page) \<and>
   fst (login reference_platform 0 bigint_user blank_page) = Throw TypeError \<and>
   localStorage (snd (login reference_platform 0 bigint_user blank_page)) CONFIG_storageKey
     = Some ''true'' \<and>
   localStorage (snd (login reference_platform 0 bigint_user blank_page)) CONFIG_userDataKey
     = None \<and>
   \<not> auth_keys_synced (localStorage (snd (login reference_platform 0 bigint_user blank_page)))"
proof -
  have s: "localStorage (snd (login reference_platform 0 bigint_user blank_page)) =
           (localStorage blank_page)(CONFIG_storageKey \<mapsto> ''true'')"
    by (simp add: login_storage reference_quota bigint_record_refused)
  have t: "fst (login reference_platform 0 bigint_user blank_page) = Throw TypeError"
    by (simp add: login_def Let_def and_then_def setItem_def stringify_def reference_quota
        bigint_record_refused)
  have e: "localStorage blank_page = Map.empty"
    by (simp add: blank_page_def)
  show ?thesis
    using keys_distinct
    by (simp add: s t e auth_keys_synced_def auth_keys_present_def auth_keys_absent_def)
qed

text \<open>
  C5, amended. After a call of \<open>logout\<close> both keys are removed. After a call of \<open>login\<close>
  that returns normally both keys are set. A call of \<open>login\<close> on a synchronised store
  leaves the keys synchronised, with one exception: it threw, the store was logged out
  before, and now holds the flag \<open>'true'\<close> without the user record (a step after the
  first write threw: \<open>JSON.stringify\<close> or the second \<open>setItem\<close>).
\<close>

theorem auth_keys_after_login_logout:
  "auth_keys_absent (localStorage (snd (logout P w))) \<and>
   (fst (login P now u w) = Normal () \<longrightarrow>
      auth_keys_present (localStorage (snd (login P now u w)))) \<and>
   (auth_keys_synced (localStorage w) \<longrightarrow>
      auth_keys_synced (localStorage (snd (login P now u w))) \<or>
      (\<exists>e. fst (login P now u w) = Throw e) \<and>
      auth_keys_absent (localStorage w) \<and>
      localStorage (snd (login P now u w)) CONFIG_storageKey = Some ''true'' \<and>
      localStorage (snd (login P now u w)) CONFIG_userDataKey = None)"
proof (intro conjI impI)
  show "auth_keys_absent (localStorage (snd (logout P w)))"
    by (simp add: auth_keys_absent_def logout_storage)
next
  assume n: "fst (login P now u w) = Normal ()"
  let ?stop = "quota_exceeded P (localStorage w) CONFIG_storageKey ''true'' \<or>
           (case JSON_stringify P (login_record (default_user u) (toISOString P now)) of
              None \<Rightarrow> True
            | Some s \<Rightarrow> quota_exceeded P ((localStorage w)(CONFIG_storageKey \<mapsto> ''true''))
                          CONFIG_userDataKey s)"
  have "\<not> ?stop"
    using login_throws_before_second_write [of P w u now] n by auto
  then show "auth_keys_present (localStorage (snd (login P now u w)))"
    using keys_distinct
    by (auto simp: login_storage auth_keys_present_def split: option.splits)
next
  assume s: "auth_keys_synced (localStorage w)"
  let ?stop = "quota_exceeded P (localStorage w) CONFIG_storageKey ''true'' \<or>
           (case JSON_stringify P (login_record (default_user u) (toISOString P now)) of
              None \<Rightarrow> True
            | Some s \<Rightarrow> quota_exceeded P ((localStorage w)(CONFIG_storageKey \<mapsto> ''true''))
                          CONFIG_userDataKey s)"
  show "auth_keys_synced (localStorage (snd (login P now u w))) \<or>
      (\<exists>e. fst (login P now u w) = Throw e) \<and>
      auth_keys_absent (localStorage w) \<and>
      localStorage (snd (login P now u w)) CONFIG_storageKey = Some ''true'' \<and>
      localStorage (snd (login P now u w)) CONFIG_userDataKey = None"
  proof (cases ?stop)
    case False
    then have "auth_keys_present (localStorage (snd (login P now u w)))"
      using keys_distinct
      by (auto simp: login_storage auth_keys_present_def split: option.splits)
    then show ?thesis by (simp add: auth_keys_synced_def)
  next
    case True
    then have thrown: "\<exists>e. fst (login P now u w) = Throw e"
      by (rule login_throws_before_second_write)
    from True have st: "localStorage (snd (login P now u w)) = localStorage w \<or>
        localStorage (snd (login P now u w)) = (localStorage w)(CONFIG_storageKey \<mapsto> ''true'')"
      by (auto simp: login_storage split: option.splits)
    from s consider "auth_keys_present (localStorage w)" | "auth_keys_absent (localStorage w)"
      by (auto simp: auth_keys_synced_def)
    then show ?thesis
    proof cases
      case 1
      with st have "auth_keys_present (localStorage (snd (login P now u w)))"
        using keys_distinct by (auto simp: auth_keys_present_def)
      then show ?thesis by (simp add: auth_keys_synced_def)
    next
      case 2
      from st show ?thesis
      proof
        assume "localStorage (snd (login P now u w)) = localStorage w"
        with s show ?thesis by simp
      next
        assume "localStorage (snd (login P now u w)) =
                (localStorage w)(CONFIG_storageKey \<mapsto> ''true'')"
        with 2 thrown keys_distinct show ?thesis
          by (auto simp: auth_keys_absent_def)
      qed
    qed
  qed
qed

theorem auth_keys_after_login_logout_witness:
  "fst (login reference_platform 0 alice blank_page) = Normal () \<and>
   auth_keys_synced (localStorage blank_page) \<and>
   auth_keys_present (localStorage (snd (login reference_platform 0 alice blank_page))) \<and>
   auth_keys_absent (localStorage (snd (logout reference_platform blank_page)))"
proof -
  obtain s where s: "JSON_stringify reference_platform
       (login_record (default_user alice) (toISOString reference_platform 0)) = Some s"
    using alice_record_written by auto
  with alice_record_read obtain j where j: "JSON_parse reference_platform s = Some j"
    by auto
  have ne: "s \<noteq> []"
    using j empty_unreadable by auto
  have n: "fst (login reference_platform 0 alice blank_page) = Normal ()"
    using keys_distinct
    by (simp add: login_def Let_def and_then_def setItem_def stringify_def reference_quota s
        dispatchEvent_def updateAuthUI_def isLoggedIn_def getUserData_def j ne blank_page_def)
  have y: "auth_keys_synced (localStorage blank_page)"
    by (simp add: auth_keys_synced_def auth_keys_absent_def blank_page_def)
  show ?thesis
    using n y auth_keys_after_login_logout [of reference_platform blank_page 0 alice]
    by simp
qed

subsection \<open>Values stored with an expiry\<close>

lemma bit_length_nonneg: "0 \<le> bit_length n"
proof (induction n rule: bit_length.induct)
  case (1 n)
  show ?case
  proof (cases "n \<le> 0")
    case True
    then show ?thesis by (simp add: bit_length.simps)
  next
    case False
    with 1 have "0 \<le> bit_length (n div 2)" by simp
    with False show ?thesis by (subst bit_length.simps) simp
  qed
qed

lemma bit_length_pos: "0 < n \<Longrightarrow> 1 \<le> bit_length n"
  using bit_length_nonneg [of "n div 2"] by (subst bit_length.simps) simp

lemma bit_length_bound: "n < 2 ^ k \<Longrightarrow> bit_length n \<le> int k"
proof (induction n arbitrary: k rule: bit_length.induct)
  case (1 n)
  show ?case
  proof (cases "n \<le> 0")
    case True
    then show ?thesis by (simp add: bit_length.simps)
  next
    case False
    then obtain j where k: "k = Suc j"
      using "1.prems" by (cases k) auto
    with "1.prems" have "n div 2 < 2 ^ j" by auto
    with 1 False have "bit_length (n div 2) \<le> int j" by simp
    with False k show ?thesis by (subst bit_length.simps) simp
  qed
qed

lemma bit_length_one: "bit_length 1 = 1"
  by (simp add: bit_length.simps)

lemma round_even_int: "round_even (of_int m) = m"
  by (simp add: round_even_def)

lemma floor_log2_int_bounds:
  assumes "0 < n" and "n < 2 ^ 53"
  shows "- 1 \<le> floor_log2 (of_int n)" and "floor_log2 (of_int n) \<le> 52"
proof -
  have "bit_length n \<le> 53" using bit_length_bound [OF assms(2)] by simp
  moreover have "1 \<le> bit_length n" using assms(1) by (rule bit_length_pos)
  ultimately show "- 1 \<le> floor_log2 (of_int n)" and "floor_log2 (of_int n) \<le> 52"
    by (auto simp: floor_log2_def bit_length_one Let_def)
qed

lemma round_to_double_pos_int:
  assumes "0 < n" and "n < 2 ^ 53"
  shows "round_to_double (of_int n) = Finite (of_int n)"
proof -
  define e where "e = floor_log2 (of_int n)"
  define k where "k = nat (52 - e)"
  have e: "- 1 \<le> e" "e \<le> 52"
    using floor_log2_int_bounds [OF assms] by (simp_all add: e_def)
  then have m: "max e (- 1022) = e" by simp
  have q: "pow2 (e - 52) = 1 / 2 ^ k"
    using e by (auto simp: pow2_def k_def)
  have scaled: "(of_int n :: rat) / (1 / 2 ^ k) = of_int (n * 2 ^ k)"
    by simp
  have restored: "(of_int (n * 2 ^ k) :: rat) * (1 / 2 ^ k) = of_int n"
    by simp
  have pos: "(0::rat) < of_int n" "(of_int n :: rat) \<noteq> 0" "\<bar>of_int n :: rat\<bar> = of_int n"
    using assms(1) by simp_all
  show ?thesis
    unfolding round_to_double_def
    using e
    by (simp only: pos if_False if_True Let_def e_def [symmetric] m q scaled round_even_int
          restored)
       simp
qed

text \<open>Rounding leaves an integer below \<open>2^53\<close> in magnitude as it is.\<close>

lemma round_to_double_int:
  assumes "\<bar>n\<bar> < 2 ^ 53"
  shows "round_to_double (of_int n) = Finite (of_int n)"
proof -
  consider "n = 0" | "0 < n" | "n < 0" by linarith
  then show ?thesis
  proof cases
    case 1
    then show ?thesis by (simp add: round_to_double_def)
  next
    case 2
    with assms show ?thesis by (simp add: round_to_double_pos_int)
  next
    case 3
    with assms have p: "0 < - n" "- n < 2 ^ 53" by simp_all
    have "round_to_double (of_int (- n)) = Finite (of_int (- n))"
      by (rule round_to_double_pos_int [OF p])
    with 3 show ?thesis
      by (simp add: round_to_double_def Let_def split: if_splits)
  qed
qed

text \<open>Within that range the expiry time of a whole number of minutes is computed exactly.\<close>

lemma expiry_time_whole_minutes:
  assumes "\<bar>k * 60000\<bar> < 2 ^ 53" and "\<bar>t0 + k * 60000\<bar> < 2 ^ 53"
  shows "expiry_time t0 (Finite (of_int k)) = Finite (of_int (t0 + k * 60000))"
proof -
  have a: "\<bar>k * 60\<bar> < 2 ^ 53" using assms(1) by linarith
  have e1: "(of_int k :: rat) * 60 = of_int (k * 60)" by simp
  have e2: "(of_int (k * 60) :: rat) * 1000 = of_int (k * 60000)" by simp
  have e3: "(of_int t0 :: rat) + of_int (k * 60000) = of_int (t0 + k * 60000)" by simp
  have m1: "num_mul (Finite (of_int k)) (Finite 60) = Finite (of_int (k * 60))"
    by (simp only: num_mul.simps e1 round_to_double_int [OF a])
  have m2: "num_mul (Finite (of_int (k * 60))) (Finite 1000) = Finite (of_int (k * 60000))"
    by (simp only: num_mul.simps e2 round_to_double_int [OF assms(1)])
  have m3: "num_add (Finite (of_int t0)) (Finite (of_int (k * 60000)))
              = Finite (of_int (t0 + k * 60000))"
    by (simp only: num_add.simps e3 round_to_double_int [OF assms(2)])
  show ?thesis by (simp only: expiry_time_def m1 m2 m3)
qed

lemma expiry_time_NegInf: "expiry_time t0 NegInf = NegInf"
  by (simp add: expiry_time_def)

lemma get_after_set:
  assumes written: "JSON_stringify P (expiring_record v (expiry_time t0 m)) = Some item"
    and room: "\<not> quota_exceeded P (localStorage w) key item"
    and reread: "JSON_parse P item = Some (expiring_record v (expiry_time t0 m))"
    and nonempty: "item \<noteq> []"
  shows "fst (setStorageWithExpiry P t0 key v (Some m) w) = Normal ()"
    and "getStorageWithExpiry P t1 key (snd (setStorageWithExpiry P t0 key v (Some m) w)) =
           (if num_greater (Finite (of_int t1)) (stored_number (expiry_time t0 m))
            then (Normal (Val JNull),
                  removeItem key (snd (setStorageWithExpiry P t0 key v (Some m) w)))
            else (Normal v, snd (setStorageWithExpiry P t0 key v (Some m) w)))"
proof -
  let ?e = "expiry_time t0 m"
  let ?w1 = "snd (setStorageWithExpiry P t0 key v (Some m) w)"
  have set: "setStorageWithExpiry P t0 key v (Some m) w =
             (Normal (), w\<lparr>localStorage := (localStorage w)(key \<mapsto> item)\<rparr>)"
    using written room
    by (simp add: setStorageWithExpiry_def Let_def and_then_def stringify_def setItem_def)
  then show "fst (setStorageWithExpiry P t0 key v (Some m) w) = Normal ()" by simp
  have stored: "localStorage ?w1 key = Some item"
    by (simp add: set)
  have expiry: "get_prop (Val (expiring_record v ?e)) ''expiry''
                  = Normal (Val (case ?e of Finite r \<Rightarrow> JNum r | _ \<Rightarrow> JNull))"
    by (cases v) (simp_all add: expiring_record_def)
  have val: "get_prop (Val (expiring_record v ?e)) ''value'' = Normal v"
    by (cases v) (simp_all add: expiring_record_def)
  have gt: "greater_than P t1 (Val (case ?e of Finite r \<Rightarrow> JNum r | _ \<Rightarrow> JNull))
              = num_greater (Finite (of_int t1)) (stored_number ?e)"
    by (cases ?e) (simp_all add: greater_than_def stored_number_def)
  show "getStorageWithExpiry P t1 key ?w1 =
           (if num_greater (Finite (of_int t1)) (stored_number ?e)
            then (Normal (Val JNull), removeItem key ?w1)
            else (Normal v, ?w1))"
    unfolding getStorageWithExpiry_def
    by (simp only: stored option.case nonempty if_False reread expiry completion.case gt val)
qed


lemma zero_expiry: "expiry_time 1000 (Finite 0) = Finite 1000"
  by code_simp

lemma past_expiry: "expiry_time 1000 (Finite (- 5)) = Finite (- 299000)"
  by code_simp

lemma tiny_fraction_rounds:
  "expiry_time 1700000000123 (Finite (- 1 / 2 ^ 30)) = Finite 1700000000123"
  by code_simp

lemma zero_record_written:
  "JSON_stringify reference_platform
     (expiring_record sample (expiry_time 1000 (Finite 0))) \<noteq> None"
  unfolding zero_expiry reference_platform_def by code_simp

lemma zero_record_read:
  "JSON_parse reference_platform
     (the (JSON_stringify reference_platform
        (expiring_record sample (expiry_time 1000 (Finite 0)))))
   = Some (expiring_record sample (expiry_time 1000 (Finite 0)))"
  unfolding zero_expiry reference_platform_def by code_simp

lemma tiny_record_written:
  "JSON_stringify reference_platform
     (expiring_record sample (expiry_time 1700000000123 (Finite (- 1 / 2 ^ 30)))) \<noteq> None"
  unfolding tiny_fraction_rounds reference_platform_def by code_simp

lemma tiny_record_read:
  "JSON_parse reference_platform
     (the (JSON_stringify reference_platform
        (expiring_record sample (expiry_time 1700000000123 (Finite (- 1 / 2 ^ 30))))))
   = Some (expiring_record sample (expiry_time 1700000000123 (Finite (- 1 / 2 ^ 30))))"
  unfolding tiny_fraction_rounds reference_platform_def by code_simp

lemma past_record_written:
  "JSON_stringify reference_platform
     (expiring_record sample (expiry_time 1000 (Finite (- 5)))) \<noteq> None"
  unfolding past_expiry reference_platform_def by code_simp

lemma past_record_read:
  "JSON_parse reference_platform
     (the (JSON_stringify reference_platform
        (expiring_record sample (expiry_time 1000 (Finite (- 5))))))
   = Some (expiring_record sample (expiry_time 1000 (Finite (- 5))))"
  unfolding past_expiry reference_platform_def by code_simp

text \<open>A record that was written and reads back gives the facts the read depends on.\<close>

lemma written_item:
  assumes "JSON_stringify P j \<noteq> None"
    and "JSON_parse P (the (JSON_stringify P j)) = Some j"
    and "JSON_parse P [] = None"
  shows "\<exists>item. JSON_stringify P j = Some item \<and> JSON_parse P item = Some j \<and> item \<noteq> []"
  using assms by (cases "JSON_stringify P j") auto

text \<open>
  C7, as stated, fails. The entry expires only once the clock reads strictly more than the
  stored expiry time. With \<open>expiryMinutes = 0\<close> the expiry time is the time of the write,
  so a read in the same millisecond (both at clock reading 1000) returns the stored value
  and keeps the key. The same happens for a negative fraction of a minute so small that
  the sum rounds to the time of the write: \<open>-2^-30\<close> minutes at clock reading
  1700000000123.
\<close>

theorem expiry_zero_counterexample:
  "fst (setStorageWithExpiry reference_platform 1000 ''x'' sample (Some (Finite 0)) blank_page)
     = Normal () \<and>
   fst (getStorageWithExpiry reference_platform 1000 ''x''
         (snd (setStorageWithExpiry reference_platform 1000 ''x'' sample (Some (Finite 0))
                blank_page)))
     = Normal sample \<and>
   localStorage (snd (getStorageWithExpiry reference_platform 1000 ''x''
         (snd (setStorageWithExpiry reference_platform 1000 ''x'' sample (Some (Finite 0))
                blank_page)))) ''x''
     \<noteq> None \<and>
   fst (setStorageWithExpiry reference_platform 1700000000123 ''x'' sample
          (Some (Finite (- 1 / 2 ^ 30))) blank_page)
     = Normal () \<and>
   fst (getStorageWithExpiry reference_platform 1700000000123 ''x''
         (snd (setStorageWithExpiry reference_platform 1700000000123 ''x'' sample
                (Some (Finite (- 1 / 2 ^ 30))) blank_page)))
     = Normal sample \<and>
   localStorage (snd (getStorageWithExpiry reference_platform 1700000000123 ''x''
         (snd (setStorageWithExpiry reference_platform 1700000000123 ''x'' sample
                (Some (Finite (- 1 / 2 ^ 30))) blank_page)))) ''x''
     \<noteq> None"
proof -
  have stays: "localStorage (snd (setStorageWithExpiry reference_platform t ''x'' sample
                  (Some m) blank_page)) ''x'' \<noteq> None"
    if "JSON_stringify reference_platform (expiring_record sample (expiry_time t m)) = Some i"
    for t m i
    using that
    by (simp add: setStorageWithExpiry_def Let_def and_then_def stringify_def setItem_def
        reference_quota)
  let ?w0 = "snd (setStorageWithExpiry reference_platform 1000 ''x'' sample (Some (Finite 0))
                blank_page)"
  obtain i0 where i0: "JSON_stringify reference_platform
        (expiring_record sample (expiry_time 1000 (Finite 0))) = Some i0"
      and r0: "JSON_parse reference_platform i0
        = Some (expiring_record sample (expiry_time 1000 (Finite 0)))"
      and n0: "i0 \<noteq> []"
    using written_item [OF zero_record_written zero_record_read empty_unreadable] by blast
  have c0: "\<not> num_greater (Finite (of_int 1000)) (stored_number (expiry_time 1000 (Finite 0)))"
    unfolding zero_expiry by (simp add: stored_number_def)
  have s0: "fst (setStorageWithExpiry reference_platform 1000 ''x'' sample (Some (Finite 0))
                blank_page) = Normal ()"
    by (rule get_after_set(1) [OF i0 reference_quota r0 n0])
  have g0: "getStorageWithExpiry reference_platform 1000 ''x'' ?w0 = (Normal sample, ?w0)"
    using get_after_set(2) [OF i0 reference_quota r0 n0, of 1000 "''x''" blank_page] c0
    by (simp only: if_False)
  have k0: "localStorage ?w0 ''x'' \<noteq> None"
    by (rule stays [OF i0])
  let ?w1 = "snd (setStorageWithExpiry reference_platform 1700000000123 ''x'' sample
                (Some (Finite (- 1 / 2 ^ 30))) blank_page)"
  obtain i1 where i1: "JSON_stringify reference_platform
        (expiring_record sample (expiry_time 1700000000123 (Finite (- 1 / 2 ^ 30)))) = Some i1"
      and r1: "JSON_parse reference_platform i1
        = Some (expiring_record sample (expiry_time 1700000000123 (Finite (- 1 / 2 ^ 30))))"
      and n1: "i1 \<noteq> []"
    using written_item [OF tiny_record_written tiny_record_read empty_unreadable] by blast
  have c1: "\<not> num_greater (Finite (of_int 1700000000123))
               (stored_number (expiry_time 1700000000123 (Finite (- 1 / 2 ^ 30))))"
    unfolding tiny_fraction_rounds by (simp add: stored_number_def)
  have s1: "fst (setStorageWithExpiry reference_platform 1700000000123 ''x'' sample
                (Some (Finite (- 1 / 2 ^ 30))) blank_page) = Normal ()"
    by (rule get_after_set(1) [OF i1 reference_quota r1 n1])
  have g1: "getStorageWithExpiry reference_platform 1700000000123 ''x'' ?w1
              = (Normal sample, ?w1)"
    using get_after_set(2) [OF i1 reference_quota r1 n1, of 1700000000123 "''x''" blank_page] c1
    by (simp only: if_False)
  have k1: "localStorage ?w1 ''x'' \<noteq> None"
    by (rule stays [OF i1])
  show ?thesis
    by (simp only: s0 g0 k0 s1 g1 k1 fst_conv snd_conv simp_thms)
qed

text \<open>
  C7, amended. Take an entry that \<open>setStorageWithExpiry\<close> has written (the record was
  serialised, the store took it, and \<open>JSON.parse\<close> reads it back) at clock reading \<open>t0\<close>,
  and the next \<open>getStorageWithExpiry\<close> for its key at clock reading \<open>t1\<close>. The read
  returns \<open>null\<close> and removes the key exactly when \<open>t1\<close> is greater than the stored
  expiry time, the double \<open>t0 + expiryMinutes * 60 * 1000\<close> (0 if that is not finite);
  otherwise it returns the stored value and leaves the store as it is. Hence the entry is
  absent on that read for a whole negative number \<open>k\<close> of minutes (with
  \<open>0 \<le> t0 \<le> t1\<close>, \<open>t0\<close> and \<open>k * 60000\<close> below \<open>2^53\<close> in magnitude), and for
  \<open>-Infinity\<close> at a positive clock reading; for \<open>expiryMinutes = 0\<close> it is absent if the
  clock has advanced since the write, and still present if it has not.
\<close>

theorem expired_entry_absent:
  assumes written: "JSON_stringify P (expiring_record v (expiry_time t0 m)) = Some item"
    and room: "\<not> quota_exceeded P (localStorage w) key item"
    and reread: "JSON_parse P item = Some (expiring_record v (expiry_time t0 m))"
    and nonempty: "item \<noteq> []"
    and w1: "w1 = snd (setStorageWithExpiry P t0 key v (Some m) w)"
    and r: "r = getStorageWithExpiry P t1 key w1"
  shows "fst (setStorageWithExpiry P t0 key v (Some m) w) = Normal () \<and>
         localStorage (removeItem key w1) key = None \<and>
         r = (if num_greater (Finite (of_int t1)) (stored_number (expiry_time t0 m))
              then (Normal (Val JNull), removeItem key w1)
              else (Normal v, w1)) \<and>
         (m = Finite (of_int k) \<and> k < 0 \<and> - (2 ^ 53) < k * 60000 \<and>
          0 \<le> t0 \<and> t0 < 2 ^ 53 \<and> t0 \<le> t1 \<longrightarrow>
            r = (Normal (Val JNull), removeItem key w1)) \<and>
         (m = Finite 0 \<and> \<bar>t0\<bar> < 2 ^ 53 \<and> t0 < t1 \<longrightarrow>
            r = (Normal (Val JNull), removeItem key w1)) \<and>
         (m = Finite 0 \<and> \<bar>t0\<bar> < 2 ^ 53 \<and> t1 \<le> t0 \<longrightarrow> r = (Normal v, w1)) \<and>
         (m = NegInf \<and> 0 < t1 \<longrightarrow> r = (Normal (Val JNull), removeItem key w1))"
proof -
  have s: "fst (setStorageWithExpiry P t0 key v (Some m) w) = Normal ()"
    by (rule get_after_set(1) [OF written room reread nonempty])
  have gone: "localStorage (removeItem key w1) key = None"
    by (simp add: removeItem_def)
  have c: "r = (if num_greater (Finite (of_int t1)) (stored_number (expiry_time t0 m))
              then (Normal (Val JNull), removeItem key w1)
              else (Normal v, w1))"
    unfolding r w1 by (rule get_after_set(2) [OF written room reread nonempty])
  have finite: "num_greater (Finite (of_int t1)) (stored_number (Finite (of_int e))) = (e < t1)"
    for e :: int
    by (simp add: stored_number_def)
  have whole: "r = (Normal (Val JNull), removeItem key w1)"
    if "m = Finite (of_int k)" "k < 0" "- (2 ^ 53) < k * 60000" "0 \<le> t0" "t0 < 2 ^ 53" "t0 \<le> t1"
  proof -
    have "\<bar>k * 60000\<bar> < 2 ^ 53" and "\<bar>t0 + k * 60000\<bar> < 2 ^ 53"
      using that by linarith+
    then have "expiry_time t0 m = Finite (of_int (t0 + k * 60000))"
      unfolding that(1) by (rule expiry_time_whole_minutes)
    moreover have "t0 + k * 60000 < t1" using that by linarith
    ultimately show ?thesis by (simp only: c finite if_True)
  qed
  have zero: "expiry_time t0 m = Finite (of_int t0)" if "m = Finite 0" "\<bar>t0\<bar> < 2 ^ 53"
  proof -
    have "\<bar>0 * 60000 :: int\<bar> < 2 ^ 53" and "\<bar>t0 + 0 * 60000\<bar> < 2 ^ 53"
      using that(2) by simp_all
    then have "expiry_time t0 (Finite (of_int 0)) = Finite (of_int (t0 + 0 * 60000))"
      by (rule expiry_time_whole_minutes)
    then show ?thesis by (simp add: that(1))
  qed
  have late: "r = (Normal (Val JNull), removeItem key w1)"
    if "m = Finite 0" "\<bar>t0\<bar> < 2 ^ 53" "t0 < t1"
    using that(3) by (simp only: c zero [OF that(1,2)] finite if_True)
  have same: "r = (Normal v, w1)" if "m = Finite 0" "\<bar>t0\<bar> < 2 ^ 53" "t1 \<le> t0"
  proof -
    have "\<not> t0 < t1" using that(3) by simp
    then show ?thesis by (simp only: c zero [OF that(1,2)] finite if_False)
  qed
  have inf: "r = (Normal (Val JNull), removeItem key w1)" if "m = NegInf" "0 < t1"
    using that by (simp add: c expiry_time_NegInf stored_number_def)
  show ?thesis
    using s gone c whole late same inf by blast
qed

theorem expired_entry_absent_witness:
  "fst (setStorageWithExpiry reference_platform 1000 ''x'' sample (Some (Finite (- 5)))
          blank_page) = Normal () \<and>
   getStorageWithExpiry reference_platform 1000 ''x''
     (snd (setStorageWithExpiry reference_platform 1000 ''x'' sample (Some (Finite (- 5)))
            blank_page))
     = (Normal (Val JNull),
        removeItem ''x''
          (snd (setStorageWithExpiry reference_platform 1000 ''x'' sample (Some (Finite (- 5)))
                 blank_page))) \<and>
   localStorage
     (removeItem ''x''
       (snd (setStorageWithExpiry reference_platform 1000 ''x'' sample (Some (Finite (- 5)))
              blank_page))) ''x'' = None"
proof -
  obtain item where i: "JSON_stringify reference_platform
        (expiring_record sample (expiry_time 1000 (Finite (- 5)))) = Some item"
      and rd: "JSON_parse reference_platform item
        = Some (expiring_record sample (expiry_time 1000 (Finite (- 5))))"
      and ne: "item \<noteq> []"
    using written_item [OF past_record_written past_record_read empty_unreadable] by blast
  let ?w1 = "snd (setStorageWithExpiry reference_platform 1000 ''x'' sample
                (Some (Finite (- 5))) blank_page)"
  have m: "Finite (- 5) = Finite (of_int (- 5))" by simp
  have b: "(- 5 :: int) < 0 \<and> - (2 ^ 53) < (- 5 :: int) * 60000 \<and>
           (0 :: int) \<le> 1000 \<and> (1000 :: int) < 2 ^ 53 \<and> (1000 :: int) \<le> 1000"
    by simp
  show ?thesis
    using expired_entry_absent [where w = blank_page and key = "''x''" and ?t1.0 = 1000
        and k = "- 5", OF i reference_quota rd ne refl refl] m b
    by blast
qed

subsection \<open>Template loading\<close>

lemmas template_defs =
  loadTemplates_def and_then_def try_catch_def await_fetch_def await_text_def
  set_header_innerHTML_def set_footer_innerHTML_def console_error_def
  attachHeaderEventListeners_def addEventListener_def Let_def

lemma header_footer_distinct: "header_url \<noteq> footer_url"
  by (simp add: header_url_def footer_url_def CONFIG_headerFile_def CONFIG_footerFile_def)

text \<open>
  C2. A failed template fetch (rejected promise, non-success status, or rejected body)
  leaves its target container exactly as it was before \<open>loadTemplates\<close>; a container
  whose content has changed had a success response that delivered its text.
\<close>

theorem loadTemplates_failed_fetch_frame:
  "(fetch_failed (net header_url) \<longrightarrow>
      header_container (snd (loadTemplates P net w)) = header_container w) \<and>
   (fetch_failed (net footer_url) \<longrightarrow>
      footer_container (snd (loadTemplates P net w)) = footer_container w) \<and>
   (header_container (snd (loadTemplates P net w)) \<noteq> header_container w \<longrightarrow>
      fetch_succeeds (net header_url)) \<and>
   (footer_container (snd (loadTemplates P net w)) \<noteq> footer_container w \<longrightarrow>
      fetch_succeeds (net footer_url))"
  by (auto simp: template_defs fetch_failed_def fetch_succeeds_def
      split: settlement.splits option.splits if_splits)

theorem loadTemplates_failed_fetch_frame_witness:
  "fetch_failed (net_footer_500 footer_url) \<and>
   \<not> fetch_failed (net_footer_500 header_url) \<and>
   footer_container (snd (loadTemplates reference_platform net_footer_500 blank_page))
     = footer_container blank_page \<and>
   fetch_failed (net_header_rejected header_url) \<and>
   header_container (snd (loadTemplates reference_platform net_header_rejected blank_page))
     = header_container blank_page"
proof -
  have a: "fetch_failed (net_footer_500 footer_url)"
    using header_footer_distinct by (simp add: net_footer_500_def fetch_failed_def ok_def)
  have b: "\<not> fetch_failed (net_footer_500 header_url)"
    by (simp add: net_footer_500_def fetch_failed_def ok_def)
  have c: "fetch_failed (net_header_rejected header_url)"
    by (simp add: net_header_rejected_def fetch_failed_def)
  show ?thesis
    using a b c
      loadTemplates_failed_fetch_frame [of net_footer_500 reference_platform blank_page]
      loadTemplates_failed_fetch_frame [of net_header_rejected reference_platform blank_page]
    by simp
qed

lemma loadTemplates_network:
  "\<exists>k. network (snd (loadTemplates P net w)) =
         network w @ take k [Requested header_url, Settled header_url,
                             Requested footer_url, Settled footer_url]"
proof -
  let ?evs = "[Requested header_url, Settled header_url, Requested footer_url, Settled footer_url]"
  have "network (snd (loadTemplates P net w)) = network w @ take 1 ?evs \<or>
        network (snd (loadTemplates P net w)) = network w @ take 2 ?evs \<or>
        network (snd (loadTemplates P net w)) = network w @ take 3 ?evs \<or>
        network (snd (loadTemplates P net w)) = network w @ take 4 ?evs"
    by (auto simp: template_defs split: settlement.splits option.splits if_splits)
  then show ?thesis by blast
qed

lemma footer_requested_after_failed_status:
  assumes "net header_url = Fulfils r" and "\<not> ok r"
  shows "Requested footer_url \<in> set (network (snd (loadTemplates P net w)))"
  using assms
  by (auto simp: template_defs split: settlement.splits option.splits)

lemma footer_injected_after_failed_status:
  assumes "net header_url = Fulfils r" and "\<not> ok r"
    and "net footer_url = Fulfils r'" and "ok r'" and "body r' = Fulfils t"
    and "footer_container w \<noteq> None"
  shows "fst (loadTemplates P net w) = Normal () \<and>
         footer_container (snd (loadTemplates P net w)) = Some t"
  using assms
  by (auto simp: template_defs)

lemma rejected_run:
  "snd (loadTemplates P net_header_rejected blank_page) =
     blank_page\<lparr>network := [Requested header_url, Settled header_url],
                 console := [TemplateError TypeError]\<rparr>"
  by (simp add: template_defs net_header_rejected_def blank_page_def)

lemma both_ok_network:
  "network (snd (loadTemplates P net_both_ok blank_page)) =
     [Requested header_url, Settled header_url, Requested footer_url, Settled footer_url]"
  using header_footer_distinct
  by (simp add: template_defs net_both_ok_def served_def blank_page_def ok_def)

text \<open>
  C1, as stated, fails. When the header fetch is rejected while the footer would be served
  with status 200, the \<open>catch\<close> around both halves ends the function: the footer is
  never requested and its container keeps its content. And when both are served, the
  header request has settled before the footer request starts.
\<close>

theorem loadTemplates_independent_counterexample:
  "net_header_rejected header_url = Rejects TypeError \<and>
   fetch_succeeds (net_header_rejected footer_url) \<and>
   Requested footer_url \<notin>
     set (network (snd (loadTemplates reference_platform net_header_rejected blank_page))) \<and>
   footer_container (snd (loadTemplates reference_platform net_header_rejected blank_page))
     = footer_container blank_page \<and>
   footer_container blank_page = Some [] \<and>
   network (snd (loadTemplates reference_platform net_both_ok blank_page)) =
     [Requested header_url, Settled header_url, Requested footer_url, Settled footer_url]"
proof -
  have "net_header_rejected header_url = Rejects TypeError"
    by (simp add: net_header_rejected_def)
  moreover have "fetch_succeeds (net_header_rejected footer_url)"
    using header_footer_distinct
    by (simp add: net_header_rejected_def served_def fetch_succeeds_def ok_def)
  moreover have "Requested footer_url \<notin>
     set (network (snd (loadTemplates reference_platform net_header_rejected blank_page)))"
    using header_footer_distinct by (simp add: rejected_run)
  moreover have
    "footer_container (snd (loadTemplates reference_platform net_header_rejected blank_page))
       = footer_container blank_page"
    by (simp add: rejected_run)
  moreover have "footer_container blank_page = Some []"
    by (simp add: blank_page_def)
  ultimately show ?thesis
    using both_ok_network [of reference_platform] by simp
qed

text \<open>
  C1, amended. \<open>loadTemplates\<close> runs the two fetches one after the other: the network
  events of a run are an initial part of the sequence header requested, header settled,
  footer requested, footer settled. When the header response has a non-success status, the
  footer fetch is still initiated and, if its response is successful, its text is read and
  the footer container exists, \<open>loadTemplates\<close> returns with the footer container's
  content replaced by the fetched text.
\<close>

theorem loadTemplates_sequential:
  "(\<exists>k. network (snd (loadTemplates P net w)) =
         network w @ take k [Requested header_url, Settled header_url,
                             Requested footer_url, Settled footer_url]) \<and>
   (net header_url = Fulfils r \<and> \<not> ok r \<longrightarrow>
      Requested footer_url \<in> set (network (snd (loadTemplates P net w))) \<and>
      (net footer_url = Fulfils r' \<and> ok r' \<and> body r' = Fulfils t \<and>
       footer_container w \<noteq> None \<longrightarrow>
         fst (loadTemplates P net w) = Normal () \<and>
         footer_container (snd (loadTemplates P net w)) = Some t))"
  using loadTemplates_network [of P net w]
    footer_requested_after_failed_status [of net r P w]
    footer_injected_after_failed_status [of net r r' t w P]
  by blast

theorem loadTemplates_sequential_witness:
  "net_header_404 header_url = Fulfils \<lparr>status = 404, body = Fulfils ''Not Found''\<rparr> \<and>
   \<not> ok \<lparr>status = 404, body = Fulfils ''Not Found''\<rparr> \<and>
   net_header_404 footer_url = Fulfils \<lparr>status = 200, body = Fulfils ''<p>footer</p>''\<rparr> \<and>
   ok \<lparr>status = 200, body = Fulfils ''<p>footer</p>''\<rparr> \<and>
   Requested footer_url \<in> set (network (snd (loadTemplates reference_platform net_header_404 blank_page))) \<and>
   footer_container (snd (loadTemplates reference_platform net_header_404 blank_page))
     = Some ''<p>footer</p>''"
proof -
  have h: "net_header_404 header_url = Fulfils \<lparr>status = 404, body = Fulfils ''Not Found''\<rparr>"
    by (simp add: net_header_404_def served_def)
  have f: "net_header_404 footer_url = Fulfils \<lparr>status = 200, body = Fulfils ''<p>footer</p>''\<rparr>"
    using header_footer_distinct by (simp add: net_header_404_def served_def)
  have nok: "\<not> ok \<lparr>status = 404, body = Fulfils ''Not Found''\<rparr>"
    by (simp add: ok_def)
  have fok: "ok \<lparr>status = 200, body = Fulfils ''<p>footer</p>''\<rparr>"
    by (simp add: ok_def)
  have c: "footer_container blank_page \<noteq> None"
    by (simp add: blank_page_def)
  show ?thesis
    using h f nok fok c
      loadTemplates_sequential [of reference_platform net_header_404 blank_page
        "\<lparr>status = 404, body = Fulfils ''Not Found''\<rparr>"
        "\<lparr>status = 200, body = Fulfils ''<p>footer</p>''\<rparr>" "''<p>footer</p>''"]
    by simp
qed

end
